theory Spec2Isabelle
  imports Main
begin

section \<open>JavaScript values\<close>

text \<open>
  The message handler of \<^verbatim>\<open>secure-comm.js\<close> reads untyped data: the payload of a
  \<^verbatim>\<open>message\<close> event is whatever the other window posted. Values are modelled
  by a small datatype of the primitives and of plain objects, which is what a posted
  payload made of JSON-like data holds; arrays and the other built-in object kinds are
  not modelled. An object is an association list read by its first binding of a key.
  Numbers are restricted to integers (their only uses here are truthiness, printing
  and epoch milliseconds).
\<close>

datatype jsval =
    JUndefined
  | JNull
  | JBool bool
  | JNum int
  | JStr string
  | JObj "(string \<times> jsval) list"

text \<open>\<^verbatim>\<open>!v\<close> is \<open>\<not> truthy v\<close>.\<close>

fun truthy :: "jsval \<Rightarrow> bool" where
  "truthy JUndefined = False"
| "truthy JNull = False"
| "truthy (JBool b) = b"
| "truthy (JNum n) = (n \<noteq> 0)"
| "truthy (JStr s) = (s \<noteq> [])"
| "truthy (JObj fs) = True"

text \<open>
  Property access \<^verbatim>\<open>v.k\<close>. On a primitive the keys read by this program
  (\<^verbatim>\<open>type\<close>, \<^verbatim>\<open>metadata\<close>, \<^verbatim>\<open>timestamp\<close>, ...) are not defined, so the
  result is \<^verbatim>\<open>undefined\<close>. The source never reads a property of \<^verbatim>\<open>null\<close> or
  \<^verbatim>\<open>undefined\<close>: each access is guarded by a truthiness test or by \<^verbatim>\<open>|| {}\<close>.
\<close>

fun get_field :: "jsval \<Rightarrow> string \<Rightarrow> jsval" where
  "get_field (JObj fs) k = (case map_of fs k of Some v \<Rightarrow> v | None \<Rightarrow> JUndefined)"
| "get_field v k = JUndefined"

text \<open>Decimal numerals, as JavaScript prints an integer.\<close>

fun string_of_nat :: "nat \<Rightarrow> string" where
  "string_of_nat n =
     (if n < 10 then [char_of (48 + n)]
      else string_of_nat (n div 10) @ [char_of (48 + n mod 10)])"

declare string_of_nat.simps [simp del]

definition string_of_int :: "int \<Rightarrow> string" where
  "string_of_int i =
     (if i < 0 then CHR ''-'' # string_of_nat (nat (- i)) else string_of_nat (nat i))"

text \<open>
  Object spread \<^verbatim>\<open>{...v}\<close>: the own properties of an object, the indexed characters
  of a string, none of another primitive.
\<close>

fun fields_of :: "jsval \<Rightarrow> (string \<times> jsval) list" where
  "fields_of (JObj fs) = fs"
| "fields_of (JStr s) = map (\<lambda>i. (string_of_nat i, JStr [s ! i])) [0..<length s]"
| "fields_of v = []"

text \<open>
  \<^verbatim>\<open>{...v, k: x}\<close>: the spread properties with \<open>k\<close> bound to \<open>x\<close>, in the place \<open>k\<close>
  has among them, or last if they have no \<open>k\<close>.
\<close>

definition spread_with :: "jsval \<Rightarrow> string \<Rightarrow> jsval \<Rightarrow> jsval" where
  "spread_with v k x =
     (if k \<in> set (map fst (fields_of v))
      then JObj (map (\<lambda>p. if fst p = k then (k, x) else p) (fields_of v))
      else JObj (fields_of v @ [(k, x)]))"

text \<open>
  Conversion to a string, as a template literal and the \<^verbatim>\<open>textContent\<close> setter do
  it, and as \<^verbatim>\<open>new Date(v)\<close> starts. On a plain object the conversion looks for a
  callable \<^verbatim>\<open>toString\<close>; a posted object's own properties are never functions, so
  an object with an own \<^verbatim>\<open>toString\<close> property hides the inherited method and the
  conversion throws a TypeError. Every other plain object prints as
  \<^verbatim>\<open>[object Object]\<close>.
\<close>

fun toStringThrows :: "jsval \<Rightarrow> bool" where
  "toStringThrows (JObj fs) = (''toString'' \<in> set (map fst fs))"
| "toStringThrows v = False"

fun toStringJS :: "jsval \<Rightarrow> string" where
  "toStringJS JUndefined = ''undefined''"
| "toStringJS JNull = ''null''"
| "toStringJS (JBool b) = (if b then ''true'' else ''false'')"
| "toStringJS (JNum n) = string_of_int n"
| "toStringJS (JStr s) = s"
| "toStringJS (JObj fs) = ''[object Object]''"

section \<open>The page around the program\<close>

type_synonym window = nat

text \<open>The places of the program that read the clock with \<^verbatim>\<open>new Date()\<close>.\<close>

datatype site =
    AtValidation
  | AtStore
  | AtTokenInfo
  | AtAckData
  | AtSend
  | AtHandshakeRequest

text \<open>
  What the browser supplies to one synchronous call of the program: the opener window,
  the page's own origin, the clock (in epoch milliseconds, as each place of the program
  reads it during the call), \<^verbatim>\<open>Date.prototype.toISOString\<close>, the time value of
  \<^verbatim>\<open>new Date(v)\<close> where the constructor returns (\<open>None\<close> is an invalid date, whose
  time value is NaN; where it throws is \<open>toStringThrows\<close>), whether a given
  \<^verbatim>\<open>postMessage\<close> call throws, and the bytes of \<^verbatim>\<open>crypto.getRandomValues\<close>.
\<close>

record environment =
  opener :: "window option"
  locationOrigin :: string
  now :: "site \<Rightarrow> int"
  toISOString :: "int \<Rightarrow> string"
  dateOf :: "jsval \<Rightarrow> int option"
  postMessageThrows :: "window \<Rightarrow> jsval \<Rightarrow> string \<Rightarrow> bool"
  randomByte :: "nat \<Rightarrow> nat"

datatype level = Log | Warn | Error

datatype timer = InitiateHandshakeTimer | HandshakeTimeoutTimer

datatype callback = NotAFunction | Function nat

text \<open>
  Everything the program does to its surroundings, in the order it is done: a
  \<^verbatim>\<open>postMessage\<close> call (target window, message, target origin), a status
  notification (the arguments of \<^verbatim>\<open>_updateStatus\<close>), a console line (its fixed
  text and the values printed with it), a call of the token store's
  \<^verbatim>\<open>storeTokens\<close>, a call of the registered callback, an armed timer, and a
  TypeError that leaves the running handler uncaught and ends it.
\<close>

datatype effect =
    PostMessage window jsval string
  | Status string string
  | Console level string "jsval list"
  | CallStoreTokens jsval jsval
  | CallCallback nat jsval jsval
  | SetTimeout timer nat
  | Uncaught

fun isConsole :: "effect \<Rightarrow> bool" where
  "isConsole (Console l s vs) = True"
| "isConsole e = False"

section \<open>token-storage.js\<close>

record TokenStorage =
  ts_debug :: bool
  accessToken :: jsval
  refreshToken :: jsval
  tokenMetadata :: jsval

definition newTokenStorage :: "bool \<Rightarrow> TokenStorage" where
  "newTokenStorage d =
     \<lparr>ts_debug = d, accessToken = JNull, refreshToken = JNull, tokenMetadata = JNull\<rparr>"

text \<open>\<^verbatim>\<open>storeTokens\<close> returns the store, its boolean result and its console lines.\<close>

definition storeTokens ::
  "environment \<Rightarrow> jsval \<Rightarrow> jsval \<Rightarrow> TokenStorage \<Rightarrow> TokenStorage \<times> bool \<times> effect list" where
  "storeTokens env tokens metadata st =
     (if \<not> truthy tokens \<or> \<not> truthy (get_field tokens ''accessToken'')
         \<or> \<not> truthy (get_field tokens ''refreshToken'')
      then (st, False, [])
      else
        (st\<lparr>accessToken := get_field tokens ''accessToken'',
            refreshToken := get_field tokens ''refreshToken'',
            tokenMetadata :=
              spread_with metadata ''receivedAt'' (JStr (toISOString env (now env AtStore)))\<rparr>,
         True,
         if ts_debug st then [Console Log ''[TokenStorage] Tokens stored successfully'' []]
         else []))"

definition getTokenMetadata :: "TokenStorage \<Rightarrow> jsval" where
  "getTokenMetadata st = JObj (fields_of (tokenMetadata st))"

definition hasTokens :: "TokenStorage \<Rightarrow> bool" where
  "hasTokens st = (truthy (accessToken st) \<and> truthy (refreshToken st))"

definition clearTokens :: "TokenStorage \<Rightarrow> TokenStorage \<times> effect list" where
  "clearTokens st =
     (st\<lparr>accessToken := JNull, refreshToken := JNull, tokenMetadata := JNull\<rparr>,
      if ts_debug st then [Console Log ''[TokenStorage] Tokens cleared'' []] else [])"

section \<open>secure-comm.js: the session and the page it lives in\<close>

text \<open>
  The fields of a \<^verbatim>\<open>SecureCommunication\<close> object (\<open>senderOrigin\<close> and \<open>debug\<close> are
  \<^verbatim>\<open>this.config\<close>), followed by the parts of the page it reads and writes: whether
  its handler is registered for \<^verbatim>\<open>message\<close> events, the six DOM elements of the
  status and token displays (\<open>None\<close> when the element does not exist, otherwise its
  class name, its text content, or whether it carries the class \<^verbatim>\<open>hidden\<close>), and
  the trace of effects so far.
\<close>

record world =
  senderOrigin :: string
  debug :: bool
  sourceWindow :: "window option"
  handshakeComplete :: bool
  connectionStatus :: string
  tokenStorage :: "TokenStorage option"
  tokensReceivedCallback :: "callback option"
  listening :: bool
  statusContainer :: "string option"
  statusMessage :: "string option"
  tokenInfoContainer :: "bool option"
  userIdDisplay :: "string option"
  tokenStatusDisplay :: "string option"
  tokenReceivedAtDisplay :: "string option"
  trace :: "effect list"

record MessageEvent =
  origin :: string
  data :: jsval
  source :: "window option"

record options =
  opt_senderOrigin :: "string option"
  opt_debug :: "bool option"
  opt_tokenStorage :: "TokenStorage option"

text \<open>The DOM elements the page was loaded with.\<close>

record page =
  pg_statusContainer :: "string option"
  pg_statusMessage :: "string option"
  pg_tokenInfoContainer :: "bool option"
  pg_userIdDisplay :: "string option"
  pg_tokenStatusDisplay :: "string option"
  pg_tokenReceivedAtDisplay :: "string option"

definition emit :: "effect \<Rightarrow> world \<Rightarrow> world" where
  "emit e w = w\<lparr>trace := trace w @ [e]\<rparr>"

definition emits :: "effect list \<Rightarrow> world \<Rightarrow> world" where
  "emits es w = w\<lparr>trace := trace w @ es\<rparr>"

text \<open>\<^verbatim>\<open>if (this.config.debug) console.<l>(s, ...vs)\<close>\<close>

definition debugLog :: "level \<Rightarrow> string \<Rightarrow> jsval list \<Rightarrow> world \<Rightarrow> world" where
  "debugLog l s vs w = (if debug w then emit (Console l s vs) w else w)"

text \<open>The effects a call added to the trace, and those among them that are not console lines.\<close>

definition new_effects :: "world \<Rightarrow> world \<Rightarrow> effect list" where
  "new_effects w w' = drop (length (trace w)) (trace w')"

definition external :: "effect list \<Rightarrow> effect list" where
  "external es = filter (\<lambda>e. \<not> isConsole e) es"

text \<open>The constructor (lines 9--24).\<close>

definition construct :: "options \<Rightarrow> page \<Rightarrow> world" where
  "construct opts pg =
     \<lparr>senderOrigin =
        (case opt_senderOrigin opts of Some so \<Rightarrow> so | None \<Rightarrow> ''http://localhost:3002''),
      debug = (case opt_debug opts of Some d \<Rightarrow> d | None \<Rightarrow> False),
      sourceWindow = None,
      handshakeComplete = False,
      connectionStatus = ''disconnected'',
      tokenStorage = opt_tokenStorage opts,
      tokensReceivedCallback = None,
      listening = False,
      statusContainer = pg_statusContainer pg,
      statusMessage = pg_statusMessage pg,
      tokenInfoContainer = pg_tokenInfoContainer pg,
      userIdDisplay = pg_userIdDisplay pg,
      tokenStatusDisplay = pg_tokenStatusDisplay pg,
      tokenReceivedAtDisplay = pg_tokenReceivedAtDisplay pg,
      trace = []\<rparr>"

text \<open>\<^verbatim>\<open>_updateStatus(message, type)\<close> (lines 333--345).\<close>

definition updateStatus :: "string \<Rightarrow> string \<Rightarrow> world \<Rightarrow> world" where
  "updateStatus message type w =
     (let w1 = emit (Status message type) w;
          w2 = (if statusContainer w1 \<noteq> None \<and> statusMessage w1 \<noteq> None
                then w1\<lparr>statusContainer := Some (''status '' @ type),
                        statusMessage := Some message\<rparr>
                else w1)
      in debugLog Log (''[WebApp B] '' @ message) [] w2)"

text \<open>\<^verbatim>\<open>_generateId(length)\<close> (lines 351--360).\<close>

definition characters :: string where
  "characters = ''ABCDEFGHIJKLMNOPQRSTUVWXYZabcdefghijklmnopqrstuvwxyz0123456789''"

definition generateId :: "environment \<Rightarrow> nat \<Rightarrow> string" where
  "generateId env len =
     map (\<lambda>i. characters ! ((randomByte env i mod 256) mod length characters)) [0..<len]"

text \<open>
  \<^verbatim>\<open>_updateTokenInfo()\<close> (lines 298--327). An assignment to \<^verbatim>\<open>textContent\<close>
  converts its value to a string; the result is the page and whether that conversion
  threw, in which case the assignments after it did not happen.
\<close>

definition updateTokenInfo :: "environment \<Rightarrow> world \<Rightarrow> world \<times> bool" where
  "updateTokenInfo env w =
     (case tokenStorage w of
        None \<Rightarrow> (w, False)
      | Some st \<Rightarrow>
         (if tokenInfoContainer w = None then (w, False)
          else if hasTokens st then
            (let metadata = getTokenMetadata st;
                 userId = (if truthy (get_field metadata ''userId'')
                           then get_field metadata ''userId'' else JStr ''Unknown'');
                 receivedAt = (if truthy (get_field metadata ''receivedAt'')
                               then get_field metadata ''receivedAt''
                               else JStr (toISOString env (now env AtTokenInfo)))
             in if userIdDisplay w \<noteq> None \<and> toStringThrows userId then (w, True)
                else
                  (let w1 = (if userIdDisplay w \<noteq> None
                             then w\<lparr>userIdDisplay := Some (toStringJS userId)\<rparr> else w);
                       w2 = (if tokenStatusDisplay w1 \<noteq> None
                             then w1\<lparr>tokenStatusDisplay := Some ''Valid''\<rparr> else w1)
                   in if tokenReceivedAtDisplay w2 \<noteq> None \<and> toStringThrows receivedAt
                      then (w2, True)
                      else
                        (let w3 = (if tokenReceivedAtDisplay w2 \<noteq> None
                                   then w2\<lparr>tokenReceivedAtDisplay :=
                                          Some (toStringJS receivedAt)\<rparr>
                                   else w2)
                         in (w3\<lparr>tokenInfoContainer := Some False\<rparr>, False))))
          else (w\<lparr>tokenInfoContainer := Some True\<rparr>, False)))"

text \<open>
  \<^verbatim>\<open>_sendMessage(message)\<close> (lines 205--245). The \<^verbatim>\<open>postMessage\<close> call is
  recorded in the trace when it is made; when the page's primitive throws, the
  \<^verbatim>\<open>catch\<close> block runs after it.
\<close>

definition sendMessage :: "environment \<Rightarrow> jsval \<Rightarrow> world \<Rightarrow> world \<times> bool" where
  "sendMessage env message w =
     (if sourceWindow w = None \<and> opener env = None then
        ((if debug w \<and> get_field message ''type'' \<noteq> JStr ''HANDSHAKE_REQUEST''
          then emit (Console Warn
                 ''[WebApp B] Cannot send message: No valid connection to source window'' []) w
          else w),
         False)
      else
        (let secureMessage =
               spread_with message ''metadata''
                 (JObj [(''timestamp'', JStr (toISOString env (now env AtSend))),
                        (''sender'', JStr (locationOrigin env))]);
             attempt = (\<lambda>target.
               (let w1 = emit (PostMessage target secureMessage (senderOrigin w)) w
                in if postMessageThrows env target secureMessage (senderOrigin w)
                   then (updateStatus ''Error communicating with Web App A'' ''error''
                           (debugLog Error ''[WebApp B] Error sending message:'' [] w1),
                         False)
                   else (debugLog Log ''[WebApp B] Message sent: ''
                           [get_field message ''type''] w1,
                         True)))
         in case (if get_field message ''type'' = JStr ''HANDSHAKE_REQUEST''
                  then opener env else None) of
              Some op \<Rightarrow> attempt op
            | None \<Rightarrow>
               (case sourceWindow w of
                  Some sw \<Rightarrow> attempt sw
                | None \<Rightarrow> (w, False))))"

text \<open>
  \<^verbatim>\<open>initiateHandshake()\<close> (lines 62--99). The request is posted to the opener
  directly; the timeout is armed only after \<^verbatim>\<open>postMessage\<close> returned.
\<close>

definition initiateHandshake :: "environment \<Rightarrow> world \<Rightarrow> world \<times> bool" where
  "initiateHandshake env w =
     (case opener env of
        None \<Rightarrow>
          (updateStatus ''Error: Cannot establish connection to parent window'' ''error'' w,
           False)
      | Some op \<Rightarrow>
          (let requestId = generateId env 32;
               handshakeRequest =
                 JObj [(''type'', JStr ''HANDSHAKE_REQUEST''),
                       (''requestId'', JStr requestId),
                       (''data'',
                        JObj [(''timestamp'', JStr (toISOString env (now env AtHandshakeRequest))),
                              (''receiver'', JStr (locationOrigin env))])];
               w1 = emit (PostMessage op handshakeRequest (senderOrigin w)) w
           in if postMessageThrows env op handshakeRequest (senderOrigin w)
              then (updateStatus ''Error establishing connection to Web App A'' ''error''
                      (debugLog Error ''[WebApp B] Error initiating handshake:'' [] w1),
                    False)
              else (emit (SetTimeout HandshakeTimeoutTimer 30000)
                      (updateStatus ''Handshake initiated with Web App A'' ''pending'' w1),
                    True)))"

text \<open>The callback armed by \<^verbatim>\<open>initiateHandshake\<close> (lines 85--89), when it fires.\<close>

definition handshakeTimeout :: "world \<Rightarrow> world" where
  "handshakeTimeout w =
     (if \<not> handshakeComplete w
      then updateStatus ''Handshake timed out. Please try again.'' ''error'' w
      else w)"

text \<open>\<^verbatim>\<open>init()\<close>, \<^verbatim>\<open>onTokensReceived\<close>, \<^verbatim>\<open>setTokenStorage\<close> and \<^verbatim>\<open>disconnect()\<close>.\<close>

definition init :: "world \<Rightarrow> world" where
  "init w =
     emit (SetTimeout InitiateHandshakeTimer 1000)
       (debugLog Log ''[WebApp B] Secure communication manager initialized'' []
          (w\<lparr>listening := True\<rparr>))"

definition onTokensReceived :: "callback option \<Rightarrow> world \<Rightarrow> world" where
  "onTokensReceived cb w = w\<lparr>tokensReceivedCallback := cb\<rparr>"

definition setTokenStorage :: "TokenStorage option \<Rightarrow> world \<Rightarrow> world" where
  "setTokenStorage st w = w\<lparr>tokenStorage := st\<rparr>"

definition disconnect :: "world \<Rightarrow> world" where
  "disconnect w =
     debugLog Log ''[WebApp B] Communication manager disconnected'' []
       (w\<lparr>listening := False, sourceWindow := None, handshakeComplete := False,
          connectionStatus := ''disconnected''\<rparr>)"

text \<open>
  \<^verbatim>\<open>_isMessageValid(message)\<close> (lines 251--292). Both dates are constructed before
  any comparison; a constructor that throws is caught and rejects the message. A
  comparison with an invalid date is a comparison with NaN and is false, so none of
  the three rejections fires on a value the \<^verbatim>\<open>Date\<close> constructor reads as invalid.
\<close>

definition isMessageValid :: "environment \<Rightarrow> jsval \<Rightarrow> world \<Rightarrow> world \<times> bool" where
  "isMessageValid env message w =
     (let metadata = get_field message ''metadata'' in
      if \<not> truthy metadata \<or> \<not> truthy (get_field metadata ''timestamp'')
         \<or> \<not> truthy (get_field metadata ''expiresAt'')
      then (w, False)
      else if toStringThrows (get_field metadata ''expiresAt'')
              \<or> toStringThrows (get_field metadata ''timestamp'')
      then (debugLog Error ''[WebApp B] Error validating message:'' [] w, False)
      else
        (let expiresAt = dateOf env (get_field metadata ''expiresAt'');
             timestamp = dateOf env (get_field metadata ''timestamp'')
         in if (case expiresAt of None \<Rightarrow> False | Some e \<Rightarrow> now env AtValidation > e)
            then (debugLog Warn ''[WebApp B] Received expired message'' [] w, False)
            else if (case timestamp of None \<Rightarrow> False | Some t \<Rightarrow> t > now env AtValidation + 60000)
            then (debugLog Warn ''[WebApp B] Received message with future timestamp'' [] w,
                  False)
            else if (case timestamp of None \<Rightarrow> False | Some t \<Rightarrow> now env AtValidation - t > 120000)
            then (debugLog Warn ''[WebApp B] Received message is too old'' [] w, False)
            else (w, True)))"

text \<open>
  The \<^verbatim>\<open>switch\<close> of \<^verbatim>\<open>handleMessage\<close> (lines 146--198). The token store is an
  instance of the class of \<^verbatim>\<open>token-storage.js\<close>; the registered callback is called
  as an opaque operation that returns. A TypeError thrown while the token display is
  written leaves the handler before the acknowledgment.
\<close>

definition dispatch :: "environment \<Rightarrow> MessageEvent \<Rightarrow> world \<Rightarrow> world" where
  "dispatch env event w =
     (let message = data event in
      if get_field message ''type'' = JStr ''HANDSHAKE_RESPONSE'' then
        updateStatus ''Connected to Web App A and waiting for tokens...'' ''pending''
          (w\<lparr>handshakeComplete := True, connectionStatus := ''connected'',
             sourceWindow := source event\<rparr>)
      else if get_field message ''type'' = JStr ''TOKEN_TRANSFER'' then
        (if \<not> handshakeComplete w then
           updateStatus ''Security error: Received tokens before handshake completion''
             ''error'' w
         else
           (let d = (if truthy (get_field message ''data'')
                     then get_field message ''data'' else JObj []);
                tokens = get_field d ''tokens'';
                userId = get_field d ''userId'';
                issuedAt = get_field d ''issuedAt''
            in if \<not> truthy tokens \<or> \<not> truthy (get_field tokens ''accessToken'')
                  \<or> \<not> truthy (get_field tokens ''refreshToken'')
               then updateStatus ''Error: Received invalid token data'' ''error'' w
               else
                 (let w1 = (case tokenStorage w of
                              None \<Rightarrow> w
                            | Some st \<Rightarrow>
                               (let metadata =
                                      JObj [(''userId'', userId), (''issuedAt'', issuedAt),
                                            (''source'', JStr (senderOrigin w))];
                                    r = storeTokens env tokens metadata st
                                in emits (snd (snd r))
                                     ((emit (CallStoreTokens tokens metadata) w)
                                        \<lparr>tokenStorage := Some (fst r)\<rparr>)));
                      w2 = updateStatus ''Tokens received successfully!'' ''success'' w1;
                      u = updateTokenInfo env w2
                  in if snd u then emit Uncaught (fst u)
                     else
                       (let w4 = fst (sendMessage env
                                  (JObj [(''type'', JStr ''TOKEN_RECEIVED''),
                                         (''requestId'', get_field message ''requestId''),
                                         (''data'',
                                          JObj [(''success'', JBool True),
                                                (''timestamp'',
                                                 JStr (toISOString env (now env AtAckData)))])])
                                  (fst u))
                        in case tokensReceivedCallback w4 of
                             Some (Function f) \<Rightarrow>
                               emit (CallCallback f tokens
                                       (JObj [(''userId'', userId), (''issuedAt'', issuedAt)]))
                                 w4
                           | _ \<Rightarrow> w4))))
      else w)"

text \<open>
  \<^verbatim>\<open>handleMessage(event)\<close> (lines 121--199). The debug line before the
  \<^verbatim>\<open>switch\<close> prints the type through a template literal, which converts it to a
  string first.
\<close>

definition handleMessage :: "environment \<Rightarrow> MessageEvent \<Rightarrow> world \<Rightarrow> world" where
  "handleMessage env event w =
     (if origin event \<noteq> senderOrigin w then
        debugLog Warn ''[WebApp B] Rejected message from unauthorized origin: ''
          [JStr (origin event)] w
      else
        (let message = data event in
         if \<not> truthy message \<or> \<not> truthy (get_field message ''type'') then w
         else
           (let v = (if get_field message ''type'' \<noteq> JStr ''HANDSHAKE_RESPONSE''
                     then isMessageValid env message w else (w, True))
            in if \<not> snd v then fst v
               else if debug (fst v) \<and> toStringThrows (get_field message ''type'')
               then emit Uncaught (fst v)
               else dispatch env event
                      (debugLog Log ''[WebApp B] Received message: ''
                         [get_field message ''type''] (fst v)))))"

section \<open>Runs of the program\<close>

text \<open>
  What can happen to a session, one call at a time: the owner's calls, a
  \<^verbatim>\<open>message\<close> event (delivered to the handler only while it is registered), and the
  handshake timer firing. Each call comes with the environment it runs in.
\<close>

datatype action =
    Init
  | OnTokensReceived "callback option"
  | SetTokenStorage "TokenStorage option"
  | InitiateHandshake
  | Disconnect
  | Message MessageEvent
  | HandshakeTimeoutFires

fun step :: "environment \<Rightarrow> action \<Rightarrow> world \<Rightarrow> world" where
  "step env Init w = init w"
| "step env (OnTokensReceived cb) w = onTokensReceived cb w"
| "step env (SetTokenStorage st) w = setTokenStorage st w"
| "step env InitiateHandshake w = fst (initiateHandshake env w)"
| "step env Disconnect w = disconnect w"
| "step env (Message event) w = (if listening w then handleMessage env event w else w)"
| "step env HandshakeTimeoutFires w = handshakeTimeout w"

fun run :: "(environment \<times> action) list \<Rightarrow> world \<Rightarrow> world" where
  "run [] w = w"
| "run (ea # rest) w = run rest (step (fst ea) (snd ea) w)"

text \<open>The target origins of the \<^verbatim>\<open>postMessage\<close> calls of a trace.\<close>

fun targetOrigins :: "effect list \<Rightarrow> string list" where
  "targetOrigins [] = []"
| "targetOrigins (PostMessage t m so # es) = so # targetOrigins es"
| "targetOrigins (e # es) = targetOrigins es"

text \<open>The \<^verbatim>\<open>postMessage\<close> calls and the armed timers of a trace.\<close>

fun posts :: "effect list \<Rightarrow> (window \<times> jsval \<times> string) list" where
  "posts [] = []"
| "posts (PostMessage t m so # es) = (t, m, so) # posts es"
| "posts (e # es) = posts es"

fun timers :: "effect list \<Rightarrow> (timer \<times> nat) list" where
  "timers [] = []"
| "timers (SetTimeout t n # es) = (t, n) # timers es"
| "timers (e # es) = timers es"

text \<open>
  The configuration of a world is \<open>so\<close> and every \<^verbatim>\<open>postMessage\<close> call of its trace
  was targeted at \<open>so\<close>.
\<close>

definition targets_only :: "string \<Rightarrow> world \<Rightarrow> bool" where
  "targets_only so w = (senderOrigin w = so \<and> list_all (\<lambda>x. x = so) (targetOrigins (trace w)))"

section \<open>A concrete page, for evaluating the program\<close>

text \<open>
  A browser at 2025-06-05 02:52:47 UTC whose page was opened by window 1. Its
  \<^verbatim>\<open>Date\<close> reads a number as epoch milliseconds and, of strings, only the one
  timestamp used below; \<^verbatim>\<open>postMessage\<close> never throws.
\<close>

definition demo_env :: environment where
  "demo_env =
     \<lparr>opener = Some 1,
      locationOrigin = ''http://localhost:3003'',
      now = (\<lambda>s. 1749091967000),
      toISOString = (\<lambda>t. if t = 1749091967000 then ''2025-06-05T02:52:47.000Z''
                          else ''1970-01-01T00:00:00.000Z''),
      dateOf = (\<lambda>v. case v of
                  JNum n \<Rightarrow> Some n
                | JStr s \<Rightarrow> (if s = ''2025-06-05T02:52:47.000Z'' then Some 1749091967000
                             else None)
                | _ \<Rightarrow> None),
      postMessageThrows = (\<lambda>t m so. False),
      randomByte = (\<lambda>i. 7 * i)\<rparr>"

definition demo_page :: page where
  "demo_page =
     \<lparr>pg_statusContainer = Some ''status pending'',
      pg_statusMessage = Some ''Connecting...'',
      pg_tokenInfoContainer = Some True,
      pg_userIdDisplay = Some [],
      pg_tokenStatusDisplay = Some [],
      pg_tokenReceivedAtDisplay = Some []\<rparr>"

text \<open>The session of the application's entry point: default origin, a token store.\<close>

definition demo_session :: world where
  "demo_session =
     construct \<lparr>opt_senderOrigin = None, opt_debug = None,
                opt_tokenStorage = Some (newTokenStorage False)\<rparr> demo_page"


definition demo_response :: MessageEvent where
  "demo_response =
     \<lparr>origin = ''http://localhost:3002'',
      data = JObj [(''type'', JStr ''HANDSHAKE_RESPONSE''), (''requestId'', JStr ''r0'')],
      source = Some 1\<rparr>"

definition demo_tokens :: jsval where
  "demo_tokens = JObj [(''accessToken'', JStr ''a''), (''refreshToken'', JStr ''b'')]"

definition demo_metadata :: jsval where
  "demo_metadata =
     JObj [(''timestamp'', JNum 1749091966000), (''expiresAt'', JNum 1749092027000),
           (''sender'', JStr ''http://localhost:3002'')]"

definition demo_transfer :: MessageEvent where
  "demo_transfer =
     \<lparr>origin = ''http://localhost:3002'',
      data = JObj [(''type'', JStr ''TOKEN_TRANSFER''), (''requestId'', JStr ''r1''),
                   (''data'', JObj [(''tokens'', demo_tokens), (''userId'', JStr ''u1''),
                                    (''issuedAt'', JNum 1749091960000)]),
                   (''metadata'', demo_metadata)],
      source = Some 1\<rparr>"

text \<open>A transfer whose token bundle has no refresh token.\<close>

definition bad_transfer :: MessageEvent where
  "bad_transfer =
     \<lparr>origin = ''http://localhost:3002'',
      data = JObj [(''type'', JStr ''TOKEN_TRANSFER''), (''requestId'', JStr ''r2''),
                   (''data'', JObj [(''tokens'', JObj [(''accessToken'', JStr ''a'')]),
                                    (''userId'', JStr ''u1'')]),
                   (''metadata'', demo_metadata)],
      source = Some 1\<rparr>"

text \<open>The sessions above after a handshake response was handled.\<close>

definition demo_connected :: world where
  "demo_connected = handleMessage demo_env demo_response demo_session"


text \<open>The valid transfer, arriving from another origin.\<close>

definition forged_transfer :: MessageEvent where
  "forged_transfer = demo_transfer\<lparr>origin := ''http://localhost:4000''\<rparr>"

text \<open>The valid transfer with a timestamp 167 seconds old.\<close>

definition stale_transfer :: MessageEvent where
  "stale_transfer =
     demo_transfer\<lparr>data :=
       spread_with (data demo_transfer) ''metadata''
         (JObj [(''timestamp'', JNum 1749091800000), (''expiresAt'', JNum 1749092027000)])\<rparr>"

text \<open>The session of the entry point after \<^verbatim>\<open>initiateHandshake\<close>.\<close>

definition demo_initiated :: world where
  "demo_initiated = fst (initiateHandshake demo_env demo_session)"

text \<open>The connected session of the entry point with an observer registered.\<close>

definition demo_observed :: world where
  "demo_observed = onTokensReceived (Some (Function 7)) demo_connected"

text \<open>
  A handshake response with no \<^verbatim>\<open>requestId\<close>, and one arriving from window 2.
\<close>

definition anonymous_response :: MessageEvent where
  "anonymous_response = demo_response\<lparr>data := JObj [(''type'', JStr ''HANDSHAKE_RESPONSE'')]\<rparr>"

definition second_response :: MessageEvent where
  "second_response = demo_response\<lparr>source := Some 2\<rparr>"

text \<open>The valid transfer with dates that no \<^verbatim>\<open>Date\<close> constructor can read.\<close>

definition garbled_transfer :: MessageEvent where
  "garbled_transfer =
     demo_transfer\<lparr>data :=
       spread_with (data demo_transfer) ''metadata''
         (JObj [(''timestamp'', JStr ''banana''), (''expiresAt'', JStr ''never'')])\<rparr>"



text \<open>The observed session after one transfer was stored, acknowledged and observed.\<close>

definition demo_received :: world where
  "demo_received = handleMessage demo_env demo_transfer demo_observed"

text \<open>A session whose configured sender origin is the wildcard.\<close>

definition wildcard_session :: world where
  "wildcard_session =
     construct \<lparr>opt_senderOrigin = Some ''*'', opt_debug = None, opt_tokenStorage = None\<rparr>
       demo_page"

text \<open>
  The entry point's session after \<^verbatim>\<open>init\<close>, a handshake and its response, and the
  same after \<^verbatim>\<open>disconnect\<close>.
\<close>

definition demo_completed :: world where
  "demo_completed =
     run [(demo_env, Init), (demo_env, InitiateHandshake), (demo_env, Message demo_response)]
       demo_session"

definition demo_torn_down :: world where
  "demo_torn_down = step demo_env Disconnect demo_completed"

text \<open>A whole exchange: \<^verbatim>\<open>init\<close>, handshake, response, transfer.\<close>

definition demo_steps :: "(environment \<times> action) list" where
  "demo_steps =
     [(demo_env, Init), (demo_env, InitiateHandshake), (demo_env, Message demo_response),
      (demo_env, Message demo_transfer)]"

text \<open>The handshake request that \<^verbatim>\<open>initiateHandshake\<close> builds in \<open>demo_env\<close>.\<close>

definition demo_request :: jsval where
  "demo_request =
     JObj [(''type'', JStr ''HANDSHAKE_REQUEST''),
           (''requestId'', JStr ''AHOVcjqx4BIPWdkry5CJQXelsz6DKRYf''),
           (''data'', JObj [(''timestamp'', JStr ''2025-06-05T02:52:47.000Z''),
                            (''receiver'', JStr ''http://localhost:3003'')])]"


text \<open>
  What the handling of \<open>demo_transfer\<close> passes to the token store as metadata and to
  the observer, and what it posts as acknowledgment, in \<open>demo_env\<close>.
\<close>

definition demo_store_metadata :: jsval where
  "demo_store_metadata =
     JObj [(''userId'', JStr ''u1''), (''issuedAt'', JNum 1749091960000),
           (''source'', JStr ''http://localhost:3002'')]"

definition demo_observer_metadata :: jsval where
  "demo_observer_metadata =
     JObj [(''userId'', JStr ''u1''), (''issuedAt'', JNum 1749091960000)]"

definition demo_ack :: jsval where
  "demo_ack =
     JObj [(''type'', JStr ''TOKEN_RECEIVED''), (''requestId'', JStr ''r1''),
           (''data'', JObj [(''success'', JBool True),
                            (''timestamp'', JStr ''2025-06-05T02:52:47.000Z'')]),
           (''metadata'', JObj [(''timestamp'', JStr ''2025-06-05T02:52:47.000Z''),
                                (''sender'', JStr ''http://localhost:3003'')])]"

section \<open>Basic facts\<close>

lemma trace_emit [simp]: "trace (emit e w) = trace w @ [e]"
  by (simp add: emit_def)

lemma new_effects_self [simp]: "new_effects w w = []"
  by (simp add: new_effects_def)

lemma new_effects_append: "trace w' = trace w @ es \<Longrightarrow> new_effects w w' = es"
  by (simp add: new_effects_def)

lemma get_field_or_empty: "get_field (if truthy v then v else JObj []) k = get_field v k"
  by (cases v) simp_all

lemma get_field_defined_truthy: "get_field m k \<noteq> JUndefined \<Longrightarrow> truthy m"
  by (cases m) simp_all

lemma debugLog_fields [simp]:
  "senderOrigin (debugLog l s vs w) = senderOrigin w"
  "debug (debugLog l s vs w) = debug w"
  "sourceWindow (debugLog l s vs w) = sourceWindow w"
  "handshakeComplete (debugLog l s vs w) = handshakeComplete w"
  "connectionStatus (debugLog l s vs w) = connectionStatus w"
  "tokenStorage (debugLog l s vs w) = tokenStorage w"
  "tokensReceivedCallback (debugLog l s vs w) = tokensReceivedCallback w"
  "listening (debugLog l s vs w) = listening w"
  "statusContainer (debugLog l s vs w) = statusContainer w"
  "statusMessage (debugLog l s vs w) = statusMessage w"
  "tokenInfoContainer (debugLog l s vs w) = tokenInfoContainer w"
  "trace (debugLog l s vs w) = trace w @ (if debug w then [Console l s vs] else [])"
  by (simp_all add: debugLog_def emit_def)

lemma debugLog_frame: "debugLog l s vs w = w\<lparr>trace := trace (debugLog l s vs w)\<rparr>"
  by (simp add: debugLog_def emit_def)

lemma updateStatus_fields [simp]:
  "senderOrigin (updateStatus m t w) = senderOrigin w"
  "debug (updateStatus m t w) = debug w"
  "sourceWindow (updateStatus m t w) = sourceWindow w"
  "handshakeComplete (updateStatus m t w) = handshakeComplete w"
  "connectionStatus (updateStatus m t w) = connectionStatus w"
  "tokenStorage (updateStatus m t w) = tokenStorage w"
  "tokensReceivedCallback (updateStatus m t w) = tokensReceivedCallback w"
  "listening (updateStatus m t w) = listening w"
  "tokenInfoContainer (updateStatus m t w) = tokenInfoContainer w"
  "trace (updateStatus m t w) =
     trace w @ Status m t # (if debug w then [Console Log (''[WebApp B] '' @ m) []] else [])"
  by (simp_all add: updateStatus_def debugLog_def emit_def Let_def)

lemma updateStatus_dom:
  "statusContainer (updateStatus m t w) =
     (if statusContainer w \<noteq> None \<and> statusMessage w \<noteq> None then Some (''status '' @ t)
      else statusContainer w)"
  "statusMessage (updateStatus m t w) =
     (if statusContainer w \<noteq> None \<and> statusMessage w \<noteq> None then Some m
      else statusMessage w)"
  by (simp_all add: updateStatus_def debugLog_def emit_def Let_def)

lemma updateStatus_frame:
  "updateStatus m t w =
     w\<lparr>statusContainer := statusContainer (updateStatus m t w),
       statusMessage := statusMessage (updateStatus m t w),
       trace := trace (updateStatus m t w)\<rparr>"
  by (simp add: updateStatus_def debugLog_def emit_def Let_def)

lemma isMessageValid_accepts_imp:
  "snd (isMessageValid env m w) \<longrightarrow> fst (isMessageValid env m w) = w"
  by (simp add: isMessageValid_def Let_def)

lemma isMessageValid_accepts:
  "snd (isMessageValid env m w) \<Longrightarrow> fst (isMessageValid env m w) = w"
  using isMessageValid_accepts_imp by blast

lemma isMessageValid_frame:
  "fst (isMessageValid env m w) = w\<lparr>trace := trace (fst (isMessageValid env m w))\<rparr>"
  by (simp add: isMessageValid_def Let_def debugLog_def emit_def)

lemma isMessageValid_quiet:
  "external (new_effects w (fst (isMessageValid env m w))) = []"
  by (simp add: isMessageValid_def Let_def external_def new_effects_def)

lemma demo_connected_fields:
  "senderOrigin demo_connected = ''http://localhost:3002''"
  "debug demo_connected = False"
  "handshakeComplete demo_connected = True"
  "sourceWindow demo_connected = Some 1"
  "connectionStatus demo_connected = ''connected''"
  "tokenStorage demo_connected = Some (newTokenStorage False)"
  "tokensReceivedCallback demo_connected = None"
  "trace demo_connected =
     [Status ''Connected to Web App A and waiting for tokens...'' ''pending'']"
  by (simp_all add: demo_connected_def handleMessage_def demo_response_def demo_session_def
        construct_def dispatch_def updateStatus_def debugLog_def emit_def Let_def
        demo_page_def)

lemma isMessageValid_silent: "\<not> debug w \<Longrightarrow> fst (isMessageValid env m w) = w"
  by (simp add: isMessageValid_def Let_def debugLog_def)

text \<open>What \<^verbatim>\<open>_isMessageValid\<close> returns, as one condition on the metadata.\<close>

lemma snd_isMessageValid:
  "snd (isMessageValid env m w) =
     (truthy (get_field (get_field m ''metadata'') ''timestamp'')
      \<and> truthy (get_field (get_field m ''metadata'') ''expiresAt'')
      \<and> \<not> toStringThrows (get_field (get_field m ''metadata'') ''expiresAt'')
      \<and> \<not> toStringThrows (get_field (get_field m ''metadata'') ''timestamp'')
      \<and> (case dateOf env (get_field (get_field m ''metadata'') ''expiresAt'') of
            None \<Rightarrow> True | Some e \<Rightarrow> now env AtValidation \<le> e)
      \<and> (case dateOf env (get_field (get_field m ''metadata'') ''timestamp'') of
            None \<Rightarrow> True | Some t \<Rightarrow> t \<le> now env AtValidation + 60000 \<and> now env AtValidation - t \<le> 120000))"
proof (cases "truthy (get_field m ''metadata'')")
  case False
  then have "get_field (get_field m ''metadata'') ''timestamp'' = JUndefined"
    by (cases "get_field m ''metadata''") simp_all
  with False show ?thesis by (simp add: isMessageValid_def)
next
  case True
  then show ?thesis
    by (cases "truthy (get_field (get_field m ''metadata'') ''timestamp'')";
        cases "truthy (get_field (get_field m ''metadata'') ''expiresAt'')";
        cases "toStringThrows (get_field (get_field m ''metadata'') ''expiresAt'')";
        cases "toStringThrows (get_field (get_field m ''metadata'') ''timestamp'')")
       (simp_all add: isMessageValid_def Let_def not_less split: option.split)
qed

text \<open>The handler after its origin and shape tests.\<close>

lemma handleMessage_unfold:
  assumes "origin event = senderOrigin w" "truthy (data event)"
    "truthy (get_field (data event) ''type'')"
  shows "handleMessage env event w =
     (if get_field (data event) ''type'' = JStr ''HANDSHAKE_RESPONSE''
         \<or> snd (isMessageValid env (data event) w)
      then if debug w \<and> toStringThrows (get_field (data event) ''type'')
           then emit Uncaught w
           else dispatch env event
                  (debugLog Log ''[WebApp B] Received message: ''
                     [get_field (data event) ''type''] w)
      else fst (isMessageValid env (data event) w))"
  using assms isMessageValid_accepts_imp [of env "data event" w]
  by (simp add: handleMessage_def Let_def)

text \<open>A type that is a string prints without a conversion that could throw.\<close>

lemma handleMessage_typed:
  assumes "origin event = senderOrigin w" "get_field (data event) ''type'' = JStr ty"
    "ty \<noteq> []"
    "ty = ''HANDSHAKE_RESPONSE'' \<or> snd (isMessageValid env (data event) w)"
  shows "handleMessage env event w =
     dispatch env event (debugLog Log ''[WebApp B] Received message: '' [JStr ty] w)"
proof -
  have "truthy (data event)"
    using assms(2) get_field_defined_truthy [of "data event" "''type''"] by simp
  then show ?thesis
    using handleMessage_unfold [of event w env] assms by auto
qed

lemma demo_transfer_fields:
  "origin demo_transfer = ''http://localhost:3002''"
  "truthy (data demo_transfer)"
  "get_field (data demo_transfer) ''type'' = JStr ''TOKEN_TRANSFER''"
  "get_field (data demo_transfer) ''requestId'' = JStr ''r1''"
  "get_field (data demo_transfer) ''metadata'' = demo_metadata"
  "get_field (get_field (data demo_transfer) ''data'') ''tokens'' = demo_tokens"
  "get_field (get_field (data demo_transfer) ''data'') ''userId'' = JStr ''u1''"
  "get_field (get_field (data demo_transfer) ''data'') ''issuedAt'' = JNum 1749091960000"
  by (simp_all add: demo_transfer_def)

lemma stale_transfer_fields:
  "origin stale_transfer = ''http://localhost:3002''"
  "truthy (data stale_transfer)"
  "get_field (data stale_transfer) ''type'' = JStr ''TOKEN_TRANSFER''"
  "get_field (get_field (data stale_transfer) ''metadata'') ''timestamp'' = JNum 1749091800000"
  "get_field (get_field (data stale_transfer) ''metadata'') ''expiresAt'' = JNum 1749092027000"
  by (simp_all add: stale_transfer_def demo_transfer_def spread_with_def)

lemma demo_metadata_fields:
  "get_field demo_metadata ''timestamp'' = JNum 1749091966000"
  "get_field demo_metadata ''expiresAt'' = JNum 1749092027000"
  by (simp_all add: demo_metadata_def)

lemma demo_env_fields:
  "opener demo_env = Some 1"
  "locationOrigin demo_env = ''http://localhost:3003''"
  "now demo_env s = 1749091967000"
  "dateOf demo_env (JNum n) = Some n"
  "postMessageThrows demo_env t m so = False"
  "toISOString demo_env 1749091967000 = ''2025-06-05T02:52:47.000Z''"
  by (simp_all add: demo_env_def)

lemma external_simps [simp]:
  "external [] = []"
  "external (e # es) = (if isConsole e then external es else e # external es)"
  "external (es @ fs) = external es @ external fs"
  by (simp_all add: external_def)

lemma handleMessage_foreign:
  "origin event \<noteq> senderOrigin w \<Longrightarrow>
   handleMessage env event w =
     debugLog Warn ''[WebApp B] Rejected message from unauthorized origin: ''
       [JStr (origin event)] w"
  by (simp add: handleMessage_def)

lemma handleMessage_malformed:
  "origin event = senderOrigin w \<Longrightarrow>
   \<not> truthy (data event) \<or> \<not> truthy (get_field (data event) ''type'') \<Longrightarrow>
   handleMessage env event w = w"
  by (auto simp add: handleMessage_def)

lemma dispatch_response:
  "get_field (data event) ''type'' = JStr ''HANDSHAKE_RESPONSE'' \<Longrightarrow>
   dispatch env event w =
     updateStatus ''Connected to Web App A and waiting for tokens...'' ''pending''
       (w\<lparr>handshakeComplete := True, connectionStatus := ''connected'',
          sourceWindow := source event\<rparr>)"
  by (simp add: dispatch_def)

lemma dispatch_unconnected_transfer:
  "get_field (data event) ''type'' = JStr ''TOKEN_TRANSFER'' \<Longrightarrow> \<not> handshakeComplete w \<Longrightarrow>
   dispatch env event w =
     updateStatus ''Security error: Received tokens before handshake completion'' ''error'' w"
  by (simp add: dispatch_def)

lemma dispatch_other:
  "get_field (data event) ''type'' \<noteq> JStr ''HANDSHAKE_RESPONSE'' \<Longrightarrow>
   get_field (data event) ''type'' \<noteq> JStr ''TOKEN_TRANSFER'' \<Longrightarrow>
   dispatch env event w = w"
  by (simp add: dispatch_def)

text \<open>The shapes a call of the handler can take while the handshake is not complete.\<close>

lemma handleMessage_unconnected_cases:
  assumes "\<not> handshakeComplete w"
  obtains
    (ignored) "handleMessage env event w = w\<lparr>trace := trace (handleMessage env event w)\<rparr>"
      "external (new_effects w (handleMessage env event w)) = []"
  | (thrown) "get_field (data event) ''type'' \<noteq> JStr ''HANDSHAKE_RESPONSE''"
      "get_field (data event) ''type'' \<noteq> JStr ''TOKEN_TRANSFER''"
      "handleMessage env event w = emit Uncaught w"
  | (response) "get_field (data event) ''type'' = JStr ''HANDSHAKE_RESPONSE''"
      "handleMessage env event w =
         updateStatus ''Connected to Web App A and waiting for tokens...'' ''pending''
           ((debugLog Log ''[WebApp B] Received message: ''
               [get_field (data event) ''type''] w)
            \<lparr>handshakeComplete := True, connectionStatus := ''connected'',
              sourceWindow := source event\<rparr>)"
  | (transfer) "get_field (data event) ''type'' = JStr ''TOKEN_TRANSFER''"
      "handleMessage env event w =
         updateStatus ''Security error: Received tokens before handshake completion'' ''error''
           (debugLog Log ''[WebApp B] Received message: ''
              [get_field (data event) ''type''] w)"
proof (cases "origin event = senderOrigin w \<and> truthy (data event)
              \<and> truthy (get_field (data event) ''type'')")
  case False
  then consider "origin event \<noteq> senderOrigin w"
    | "origin event = senderOrigin w"
      "\<not> truthy (data event) \<or> \<not> truthy (get_field (data event) ''type'')"
    by blast
  then show ?thesis
  proof cases
    case 1
    show ?thesis
    proof (rule ignored)
      show "handleMessage env event w = w\<lparr>trace := trace (handleMessage env event w)\<rparr>"
        unfolding handleMessage_foreign [OF 1] by (rule debugLog_frame)
      show "external (new_effects w (handleMessage env event w)) = []"
        unfolding handleMessage_foreign [OF 1] by (simp add: new_effects_def external_def)
    qed
  next
    case 2
    then have "handleMessage env event w = w" by (rule handleMessage_malformed)
    then show ?thesis by (intro ignored) simp_all
  qed
next
  case True
  note u = handleMessage_unfold [of event w env]
  let ?w = "debugLog Log ''[WebApp B] Received message: '' [get_field (data event) ''type''] w"
  show ?thesis
  proof (cases "get_field (data event) ''type'' = JStr ''HANDSHAKE_RESPONSE''")
    case hr: True
    with True u have "handleMessage env event w = dispatch env event ?w" by simp
    with hr show ?thesis by (intro response) (simp_all add: dispatch_response)
  next
    case nhr: False
    show ?thesis
    proof (cases "snd (isMessageValid env (data event) w)")
      case False
      with True u nhr have e: "handleMessage env event w = fst (isMessageValid env (data event) w)"
        by simp
      show ?thesis
        by (rule ignored; unfold e) (rule isMessageValid_frame, rule isMessageValid_quiet)
    next
      case v: True
      show ?thesis
      proof (cases "get_field (data event) ''type'' = JStr ''TOKEN_TRANSFER''")
        case tt: True
        with True u v have "handleMessage env event w = dispatch env event ?w" by simp
        with tt assms show ?thesis
          by (intro transfer) (simp_all add: dispatch_unconnected_transfer)
      next
        case ntt: False
        show ?thesis
        proof (cases "debug w \<and> toStringThrows (get_field (data event) ''type'')")
          case True
          with \<open>origin event = senderOrigin w \<and> truthy (data event)
              \<and> truthy (get_field (data event) ''type'')\<close> u v
          have "handleMessage env event w = emit Uncaught w" by simp
          with nhr ntt show ?thesis by (intro thrown)
        next
          case False
          with \<open>origin event = senderOrigin w \<and> truthy (data event)
              \<and> truthy (get_field (data event) ''type'')\<close> u v
          have "handleMessage env event w = dispatch env event ?w" by auto
          with nhr ntt have e': "handleMessage env event w = ?w" by (simp add: dispatch_other)
          show ?thesis
            by (rule ignored; unfold e')
               (rule debugLog_frame, simp add: new_effects_def external_def)
        qed
      qed
    qed
  qed
qed

lemma updateTokenInfo_fields [simp]:
  "senderOrigin (fst (updateTokenInfo env w)) = senderOrigin w"
  "debug (fst (updateTokenInfo env w)) = debug w"
  "sourceWindow (fst (updateTokenInfo env w)) = sourceWindow w"
  "handshakeComplete (fst (updateTokenInfo env w)) = handshakeComplete w"
  "connectionStatus (fst (updateTokenInfo env w)) = connectionStatus w"
  "tokenStorage (fst (updateTokenInfo env w)) = tokenStorage w"
  "tokensReceivedCallback (fst (updateTokenInfo env w)) = tokensReceivedCallback w"
  "listening (fst (updateTokenInfo env w)) = listening w"
  "statusContainer (fst (updateTokenInfo env w)) = statusContainer w"
  "statusMessage (fst (updateTokenInfo env w)) = statusMessage w"
  "trace (fst (updateTokenInfo env w)) = trace w"
  by (simp_all add: updateTokenInfo_def Let_def split: option.split)

text \<open>When writing the token display throws.\<close>

lemma updateTokenInfo_throws:
  "snd (updateTokenInfo env w) =
     (case tokenStorage w of
        None \<Rightarrow> False
      | Some st \<Rightarrow>
          tokenInfoContainer w \<noteq> None \<and> hasTokens st
          \<and> ((userIdDisplay w \<noteq> None
               \<and> toStringThrows
                   (if truthy (get_field (getTokenMetadata st) ''userId'')
                    then get_field (getTokenMetadata st) ''userId'' else JStr ''Unknown''))
              \<or> (tokenReceivedAtDisplay w \<noteq> None
                  \<and> toStringThrows
                      (if truthy (get_field (getTokenMetadata st) ''receivedAt'')
                       then get_field (getTokenMetadata st) ''receivedAt''
                       else JStr (toISOString env (now env AtTokenInfo))))))"
  by (simp add: updateTokenInfo_def Let_def split: option.split)

lemma toStringThrows_or_default [simp]:
  "toStringThrows (if truthy v then v else JStr s) = toStringThrows v"
  by (cases v) simp_all

lemma emit_fields [simp]:
  "senderOrigin (emit e w) = senderOrigin w"
  "debug (emit e w) = debug w"
  "sourceWindow (emit e w) = sourceWindow w"
  "handshakeComplete (emit e w) = handshakeComplete w"
  "connectionStatus (emit e w) = connectionStatus w"
  "tokenStorage (emit e w) = tokenStorage w"
  "tokensReceivedCallback (emit e w) = tokensReceivedCallback w"
  "listening (emit e w) = listening w"
  "statusContainer (emit e w) = statusContainer w"
  "statusMessage (emit e w) = statusMessage w"
  "tokenInfoContainer (emit e w) = tokenInfoContainer w"
  "userIdDisplay (emit e w) = userIdDisplay w"
  "tokenReceivedAtDisplay (emit e w) = tokenReceivedAtDisplay w"
  by (simp_all add: emit_def)

lemma emits_fields [simp]:
  "senderOrigin (emits es w) = senderOrigin w"
  "debug (emits es w) = debug w"
  "sourceWindow (emits es w) = sourceWindow w"
  "handshakeComplete (emits es w) = handshakeComplete w"
  "connectionStatus (emits es w) = connectionStatus w"
  "tokenStorage (emits es w) = tokenStorage w"
  "tokensReceivedCallback (emits es w) = tokensReceivedCallback w"
  "listening (emits es w) = listening w"
  "statusContainer (emits es w) = statusContainer w"
  "statusMessage (emits es w) = statusMessage w"
  "tokenInfoContainer (emits es w) = tokenInfoContainer w"
  "userIdDisplay (emits es w) = userIdDisplay w"
  "tokenReceivedAtDisplay (emits es w) = tokenReceivedAtDisplay w"
  "trace (emits es w) = trace w @ es"
  by (simp_all add: emits_def)

lemma updateStatus_displays [simp]:
  "userIdDisplay (updateStatus m t w) = userIdDisplay w"
  "tokenReceivedAtDisplay (updateStatus m t w) = tokenReceivedAtDisplay w"
  by (simp_all add: updateStatus_def debugLog_def emit_def Let_def)

text \<open>\<^verbatim>\<open>_sendMessage\<close> for a message that is not a handshake request.\<close>

lemma sendMessage_to_peer:
  assumes "sourceWindow w = Some peer" "get_field m ''type'' \<noteq> JStr ''HANDSHAKE_REQUEST''"
  shows "fst (sendMessage env m w) =
    (let sm = spread_with m ''metadata''
                (JObj [(''timestamp'', JStr (toISOString env (now env AtSend))),
                       (''sender'', JStr (locationOrigin env))]);
         w1 = emit (PostMessage peer sm (senderOrigin w)) w
     in if postMessageThrows env peer sm (senderOrigin w)
        then updateStatus ''Error communicating with Web App A'' ''error''
               (debugLog Error ''[WebApp B] Error sending message:'' [] w1)
        else debugLog Log ''[WebApp B] Message sent: '' [get_field m ''type''] w1)"
  using assms by (simp add: sendMessage_def Let_def)

lemma sendMessage_no_peer:
  assumes "sourceWindow w = None" "get_field m ''type'' \<noteq> JStr ''HANDSHAKE_REQUEST''"
  shows "fst (sendMessage env m w) =
    (if opener env = None
     then debugLog Warn
            ''[WebApp B] Cannot send message: No valid connection to source window'' [] w
     else w)"
  using assms by (simp add: sendMessage_def Let_def debugLog_def)

lemma sendMessage_fields [simp]:
  "senderOrigin (fst (sendMessage env m w)) = senderOrigin w"
  "debug (fst (sendMessage env m w)) = debug w"
  "sourceWindow (fst (sendMessage env m w)) = sourceWindow w"
  "handshakeComplete (fst (sendMessage env m w)) = handshakeComplete w"
  "connectionStatus (fst (sendMessage env m w)) = connectionStatus w"
  "tokenStorage (fst (sendMessage env m w)) = tokenStorage w"
  "tokensReceivedCallback (fst (sendMessage env m w)) = tokensReceivedCallback w"
  "listening (fst (sendMessage env m w)) = listening w"
  by (simp_all add: sendMessage_def Let_def split: option.split)

lemma storeTokens_accepts:
  "truthy tokens \<Longrightarrow> truthy (get_field tokens ''accessToken'') \<Longrightarrow>
   truthy (get_field tokens ''refreshToken'') \<Longrightarrow>
   storeTokens env tokens metadata st =
     (st\<lparr>accessToken := get_field tokens ''accessToken'',
         refreshToken := get_field tokens ''refreshToken'',
         tokenMetadata :=
           spread_with metadata ''receivedAt'' (JStr (toISOString env (now env AtStore)))\<rparr>,
      True,
      if ts_debug st then [Console Log ''[TokenStorage] Tokens stored successfully'' []] else [])"
  by (simp add: storeTokens_def)

lemma external_storeTokens [simp]: "external (snd (snd (storeTokens env tokens metadata st))) = []"
  by (simp add: storeTokens_def)

text \<open>The store step of the \<^verbatim>\<open>TOKEN_TRANSFER\<close> branch (lines 171--177).\<close>

lemma store_step_fields:
  assumes "w1 = (case tokenStorage w of
                 None \<Rightarrow> w
               | Some st \<Rightarrow>
                   emits (snd (snd (storeTokens env tokens metadata st)))
                     ((emit (CallStoreTokens tokens metadata) w)
                        \<lparr>tokenStorage := Some (fst (storeTokens env tokens metadata st))\<rparr>))"
  shows "senderOrigin w1 = senderOrigin w" "debug w1 = debug w"
    "sourceWindow w1 = sourceWindow w" "handshakeComplete w1 = handshakeComplete w"
    "connectionStatus w1 = connectionStatus w"
    "tokensReceivedCallback w1 = tokensReceivedCallback w"
    "tokenInfoContainer w1 = tokenInfoContainer w" "userIdDisplay w1 = userIdDisplay w"
    "tokenReceivedAtDisplay w1 = tokenReceivedAtDisplay w"
    "tokenStorage w1 =
       (case tokenStorage w of
          None \<Rightarrow> None
        | Some st \<Rightarrow> Some (fst (storeTokens env tokens metadata st)))"
    "\<exists>cs. trace w1 =
            trace w @ (case tokenStorage w of
                         None \<Rightarrow> [] | Some st \<Rightarrow> [CallStoreTokens tokens metadata]) @ cs
          \<and> external cs = []"
  using assms
  by (simp_all add: emit_def emits_def split: option.split)

lemma falsy_converts [simp]: "\<not> truthy v \<Longrightarrow> \<not> toStringThrows v"
  by (cases v) simp_all

text \<open>
  After the store step the token display throws exactly when there is a store, the
  container and the user id element exist, and the user id does not convert.
\<close>

lemma stored_display_throws:
  assumes "truthy tokens" "truthy (get_field tokens ''accessToken'')"
    "truthy (get_field tokens ''refreshToken'')"
    and "metadata = JObj [(''userId'', userId), (''issuedAt'', issuedAt), (''source'', so)]"
    and "tokenStorage w2 =
       (case ts of None \<Rightarrow> None | Some st \<Rightarrow> Some (fst (storeTokens env tokens metadata st)))"
  shows "snd (updateTokenInfo env w2) =
     (ts \<noteq> None \<and> tokenInfoContainer w2 \<noteq> None \<and> userIdDisplay w2 \<noteq> None
      \<and> toStringThrows userId)"
  using assms
  by (cases ts)
     (simp_all add: updateTokenInfo_throws storeTokens_accepts hasTokens_def
        getTokenMetadata_def spread_with_def)

text \<open>The effects of the \<^verbatim>\<open>TOKEN_TRANSFER\<close> branch once the token bundle is accepted.\<close>

lemma dispatch_transfer_effects:
  assumes ty: "get_field (data event) ''type'' = JStr ''TOKEN_TRANSFER''"
    and hc: "handshakeComplete w"
    and tk: "tokens = get_field (get_field (data event) ''data'') ''tokens''"
    and ui: "userId = get_field (get_field (data event) ''data'') ''userId''"
    and ia: "issuedAt = get_field (get_field (data event) ''data'') ''issuedAt''"
    and t1: "truthy tokens" and t2: "truthy (get_field tokens ''accessToken'')"
    and t3: "truthy (get_field tokens ''refreshToken'')"
    and md: "metadata = JObj [(''userId'', userId), (''issuedAt'', issuedAt),
                          (''source'', JStr (senderOrigin w))]"
    and ak: "ack = JObj [(''type'', JStr ''TOKEN_RECEIVED''),
                     (''requestId'', get_field (data event) ''requestId''),
                     (''data'', JObj [(''success'', JBool True),
                                      (''timestamp'', JStr (toISOString env (now env AtAckData)))]),
                     (''metadata'', JObj [(''timestamp'', JStr (toISOString env (now env AtSend))),
                                          (''sender'', JStr (locationOrigin env))])]"
  shows "\<exists>es. trace (dispatch env event w) = trace w @ es \<and>
           external es =
           (case tokenStorage w of None \<Rightarrow> [] | Some st \<Rightarrow> [CallStoreTokens tokens metadata])
           @ [Status ''Tokens received successfully!'' ''success'']
           @ (if tokenStorage w \<noteq> None \<and> tokenInfoContainer w \<noteq> None
                 \<and> userIdDisplay w \<noteq> None \<and> toStringThrows userId
              then [Uncaught]
              else (case sourceWindow w of
                      None \<Rightarrow> []
                    | Some peer \<Rightarrow>
                        PostMessage peer ack (senderOrigin w)
                        # (if postMessageThrows env peer ack (senderOrigin w)
                           then [Status ''Error communicating with Web App A'' ''error'']
                           else []))
                   @ (case tokensReceivedCallback w of
                        Some (Function f) \<Rightarrow>
                          [CallCallback f tokens
                             (JObj [(''userId'', userId), (''issuedAt'', issuedAt)])]
                      | _ \<Rightarrow> []))"
    and "tokenStorage (dispatch env event w) =
           (case tokenStorage w of
              None \<Rightarrow> None
            | Some st \<Rightarrow> Some (fst (storeTokens env tokens metadata st)))"
    and "handshakeComplete (dispatch env event w)"
    and "sourceWindow (dispatch env event w) = sourceWindow w"
    and "connectionStatus (dispatch env event w) = connectionStatus w"
    and "senderOrigin (dispatch env event w) = senderOrigin w"
    and "debug (dispatch env event w) = debug w"
    and "tokensReceivedCallback (dispatch env event w) = tokensReceivedCallback w"
proof -
  have "get_field (get_field (data event) ''data'') ''tokens'' \<noteq> JUndefined"
    using tk t1 by auto
  then have d: "truthy (get_field (data event) ''data'')"
    by (rule get_field_defined_truthy)
  define w1 where "w1 = (case tokenStorage w of
                 None \<Rightarrow> w
               | Some st \<Rightarrow>
                   emits (snd (snd (storeTokens env tokens metadata st)))
                     ((emit (CallStoreTokens tokens metadata) w)
                        \<lparr>tokenStorage := Some (fst (storeTokens env tokens metadata st))\<rparr>))"
  define w2 where "w2 = updateStatus ''Tokens received successfully!'' ''success'' w1"
  define u where "u = updateTokenInfo env w2"
  define ack0 where "ack0 = JObj [(''type'', JStr ''TOKEN_RECEIVED''),
                     (''requestId'', get_field (data event) ''requestId''),
                     (''data'', JObj [(''success'', JBool True),
                                      (''timestamp'', JStr (toISOString env (now env AtAckData)))])]"
  define w4 where "w4 = fst (sendMessage env ack0 (fst u))"
  define cb where "cb = (case tokensReceivedCallback w4 of
                       Some (Function f) \<Rightarrow>
                         emit (CallCallback f tokens
                                 (JObj [(''userId'', userId), (''issuedAt'', issuedAt)])) w4
                     | _ \<Rightarrow> w4)"
  have disp: "dispatch env event w = (if snd u then emit Uncaught (fst u) else cb)"
    using ty hc tk ui ia t1 t2 t3 md d
    by (simp add: dispatch_def Let_def get_field_or_empty w1_def w2_def u_def ack0_def
          w4_def cb_def cong: option.case_cong callback.case_cong)
  note s1 = store_step_fields [OF w1_def]
  from s1(11) obtain cs where
    tr1: "trace w1 = trace w @ (case tokenStorage w of
             None \<Rightarrow> [] | Some st \<Rightarrow> [CallStoreTokens tokens metadata]) @ cs"
    and cs: "external cs = []"
    by blast
  have f2: "senderOrigin w2 = senderOrigin w" "debug w2 = debug w"
    "sourceWindow w2 = sourceWindow w" "handshakeComplete w2 = handshakeComplete w"
    "connectionStatus w2 = connectionStatus w"
    "tokensReceivedCallback w2 = tokensReceivedCallback w"
    "tokenInfoContainer w2 = tokenInfoContainer w" "userIdDisplay w2 = userIdDisplay w"
    "tokenStorage w2 = (case tokenStorage w of
          None \<Rightarrow> None
        | Some st \<Rightarrow> Some (fst (storeTokens env tokens metadata st)))"
    by (simp_all add: w2_def s1)
  have tr2: "trace w2 = trace w1 @ Status ''Tokens received successfully!'' ''success'' #
       (if debug w then [Console Log (''[WebApp B] '' @ ''Tokens received successfully!'') []]
        else [])"
    by (simp add: w2_def s1)
  have thr: "snd u = (tokenStorage w \<noteq> None \<and> tokenInfoContainer w \<noteq> None
                 \<and> userIdDisplay w \<noteq> None \<and> toStringThrows userId)"
    unfolding u_def using stored_display_throws [OF t1 t2 t3 md f2(9)] by (simp add: f2)
  have fu: "senderOrigin (fst u) = senderOrigin w" "debug (fst u) = debug w"
    "sourceWindow (fst u) = sourceWindow w" "handshakeComplete (fst u) = handshakeComplete w"
    "connectionStatus (fst u) = connectionStatus w"
    "tokensReceivedCallback (fst u) = tokensReceivedCallback w"
    "tokenStorage (fst u) = tokenStorage w2" "trace (fst u) = trace w2"
    by (simp_all add: u_def f2)
  have gu: "senderOrigin (emit Uncaught (fst u)) = senderOrigin w"
    "debug (emit Uncaught (fst u)) = debug w"
    "tokensReceivedCallback (emit Uncaught (fst u)) = tokensReceivedCallback w"
    by (simp_all add: fu)
  have sm: "spread_with ack0 ''metadata''
                (JObj [(''timestamp'', JStr (toISOString env (now env AtSend))),
                       (''sender'', JStr (locationOrigin env))]) = ack"
    by (simp add: ack0_def ak spread_with_def)
  have ty0: "get_field ack0 ''type'' \<noteq> JStr ''HANDSHAKE_REQUEST''"
    by (simp add: ack0_def)
  have tr4: "\<exists>es. trace w4 = trace (fst u) @ es \<and> external es =
      (case sourceWindow w of
                      None \<Rightarrow> []
                    | Some peer \<Rightarrow>
                        PostMessage peer ack (senderOrigin w)
                        # (if postMessageThrows env peer ack (senderOrigin w)
                           then [Status ''Error communicating with Web App A'' ''error'']
                           else []))"
  proof (cases "sourceWindow w")
    case None
    then have "sourceWindow (fst u) = None" by (simp add: fu)
    from sendMessage_no_peer [OF this ty0, of env] None show ?thesis
      by (simp add: w4_def)
  next
    case (Some peer)
    then have "sourceWindow (fst u) = Some peer" by (simp add: fu)
    from sendMessage_to_peer [OF this ty0, of env] Some show ?thesis
      by (simp add: w4_def sm Let_def fu)
  qed
  have f4: "tokensReceivedCallback w4 = tokensReceivedCallback w"
    "tokenStorage w4 = tokenStorage w2" "handshakeComplete w4 = handshakeComplete w"
    "sourceWindow w4 = sourceWindow w" "connectionStatus w4 = connectionStatus w"
    "senderOrigin w4 = senderOrigin w" "debug w4 = debug w"
    by (simp_all add: w4_def fu)
  have trc: "trace cb = trace w4 @ (case tokensReceivedCallback w of
                        Some (Function f) \<Rightarrow>
                          [CallCallback f tokens
                             (JObj [(''userId'', userId), (''issuedAt'', issuedAt)])]
                      | _ \<Rightarrow> [])"
    "tokenStorage cb = tokenStorage w2" "handshakeComplete cb = handshakeComplete w"
    "sourceWindow cb = sourceWindow w" "connectionStatus cb = connectionStatus w"
    "senderOrigin cb = senderOrigin w" "debug cb = debug w"
    "tokensReceivedCallback cb = tokensReceivedCallback w"
    by (simp_all add: cb_def f4 split: option.split callback.split)
  from tr4 obtain es4 where tr4': "trace w4 = trace (fst u) @ es4"
    and es4: "external es4 = (case sourceWindow w of
                      None \<Rightarrow> []
                    | Some peer \<Rightarrow>
                        PostMessage peer ack (senderOrigin w)
                        # (if postMessageThrows env peer ack (senderOrigin w)
                           then [Status ''Error communicating with Web App A'' ''error'']
                           else []))"
    by blast
  show "\<exists>es. trace (dispatch env event w) = trace w @ es \<and>
           external es =
           (case tokenStorage w of None \<Rightarrow> [] | Some st \<Rightarrow> [CallStoreTokens tokens metadata])
           @ [Status ''Tokens received successfully!'' ''success'']
           @ (if tokenStorage w \<noteq> None \<and> tokenInfoContainer w \<noteq> None
                 \<and> userIdDisplay w \<noteq> None \<and> toStringThrows userId
              then [Uncaught]
              else (case sourceWindow w of
                      None \<Rightarrow> []
                    | Some peer \<Rightarrow>
                        PostMessage peer ack (senderOrigin w)
                        # (if postMessageThrows env peer ack (senderOrigin w)
                           then [Status ''Error communicating with Web App A'' ''error'']
                           else []))
                   @ (case tokensReceivedCallback w of
                        Some (Function f) \<Rightarrow>
                          [CallCallback f tokens
                             (JObj [(''userId'', userId), (''issuedAt'', issuedAt)])]
                      | _ \<Rightarrow> []))"
  proof (cases "snd u")
    case True
    then have T: "tokenStorage w \<noteq> None \<and> tokenInfoContainer w \<noteq> None
                 \<and> userIdDisplay w \<noteq> None \<and> toStringThrows userId"
      using thr by simp
    from True have "trace (dispatch env event w) = trace w2 @ [Uncaught]"
      by (simp add: disp fu)
    then have "trace (dispatch env event w) = trace w @
        ((case tokenStorage w of None \<Rightarrow> [] | Some st \<Rightarrow> [CallStoreTokens tokens metadata])
         @ cs @ Status ''Tokens received successfully!'' ''success'' #
           (if debug w
            then [Console Log (''[WebApp B] '' @ ''Tokens received successfully!'') []]
            else []) @ [Uncaught])"
      by (simp add: tr1 tr2)
    then show ?thesis
      by (subst if_P [OF T], intro exI conjI, assumption) (simp add: cs split: option.split)
  next
    case False
    then have T: "\<not> (tokenStorage w \<noteq> None \<and> tokenInfoContainer w \<noteq> None
                 \<and> userIdDisplay w \<noteq> None \<and> toStringThrows userId)"
      using thr by simp
    from False have "trace (dispatch env event w) = trace cb" by (simp add: disp)
    then have "trace (dispatch env event w) = trace w @
        ((case tokenStorage w of None \<Rightarrow> [] | Some st \<Rightarrow> [CallStoreTokens tokens metadata])
         @ cs @ Status ''Tokens received successfully!'' ''success'' #
           (if debug w
            then [Console Log (''[WebApp B] '' @ ''Tokens received successfully!'') []]
            else []) @ es4 @
           (case tokensReceivedCallback w of
                        Some (Function f) \<Rightarrow>
                          [CallCallback f tokens
                             (JObj [(''userId'', userId), (''issuedAt'', issuedAt)])]
                      | _ \<Rightarrow> []))"
      by (simp add: trc(1) tr4' fu(8) tr2 tr1)
    then show ?thesis
      by (subst if_not_P [OF T], intro exI conjI, assumption)
         (simp add: cs es4 split: option.split callback.split)
  qed
  show "tokenStorage (dispatch env event w) =
           (case tokenStorage w of
              None \<Rightarrow> None
            | Some st \<Rightarrow> Some (fst (storeTokens env tokens metadata st)))"
    by (simp add: disp trc fu f2)
  show "handshakeComplete (dispatch env event w)"
    using hc by (simp add: disp trc fu)
  show "sourceWindow (dispatch env event w) = sourceWindow w"
    by (simp add: disp trc fu)
  show "connectionStatus (dispatch env event w) = connectionStatus w"
    by (simp add: disp trc fu)
  show "senderOrigin (dispatch env event w) = senderOrigin w"
    by (simp add: disp trc gu fu)
  show "debug (dispatch env event w) = debug w"
    by (simp add: disp trc gu fu)
  show "tokensReceivedCallback (dispatch env event w) = tokensReceivedCallback w"
    by (simp add: disp trc gu fu)
qed


lemma demo_observed_fields:
  "senderOrigin demo_observed = ''http://localhost:3002''"
  "debug demo_observed = False"
  "handshakeComplete demo_observed = True"
  "sourceWindow demo_observed = Some 1"
  "connectionStatus demo_observed = ''connected''"
  "tokenStorage demo_observed = Some (newTokenStorage False)"
  "tokensReceivedCallback demo_observed = Some (Function 7)"
  "trace demo_observed =
     [Status ''Connected to Web App A and waiting for tokens...'' ''pending'']"
  by (simp_all add: demo_observed_def onTokensReceived_def demo_connected_fields)

lemma demo_transfer_valid: "snd (isMessageValid demo_env (data demo_transfer) w)"
  by (simp add: snd_isMessageValid demo_transfer_fields demo_metadata_fields demo_env_fields)

lemma demo_tokens_fields:
  "truthy demo_tokens"
  "get_field demo_tokens ''accessToken'' = JStr ''a''"
  "get_field demo_tokens ''refreshToken'' = JStr ''b''"
  by (simp_all add: demo_tokens_def)

lemma demo_session_fields:
  "senderOrigin demo_session = ''http://localhost:3002''"
  "debug demo_session = False"
  "handshakeComplete demo_session = False"
  "sourceWindow demo_session = None"
  "connectionStatus demo_session = ''disconnected''"
  "tokenStorage demo_session = Some (newTokenStorage False)"
  "tokensReceivedCallback demo_session = None"
  "statusContainer demo_session = Some ''status pending''"
  "statusMessage demo_session = Some ''Connecting...''"
  "trace demo_session = []"
  by (simp_all add: demo_session_def construct_def demo_page_def)

lemma demo_initiated_fields:
  "senderOrigin demo_initiated = ''http://localhost:3002''"
  "debug demo_initiated = False"
  "handshakeComplete demo_initiated = False"
  "sourceWindow demo_initiated = None"
  "connectionStatus demo_initiated = ''disconnected''"
  "tokenStorage demo_initiated = Some (newTokenStorage False)"
  "statusContainer demo_initiated = Some ''status pending''"
  "statusMessage demo_initiated = Some ''Handshake initiated with Web App A''"
  by (simp_all add: demo_initiated_def initiateHandshake_def demo_env_fields Let_def emit_def
        updateStatus_dom demo_session_fields)

lemma bad_transfer_fields:
  "origin bad_transfer = ''http://localhost:3002''"
  "truthy (data bad_transfer)"
  "get_field (data bad_transfer) ''type'' = JStr ''TOKEN_TRANSFER''"
  "get_field (data bad_transfer) ''metadata'' = demo_metadata"
  "get_field (get_field (data bad_transfer) ''data'') ''tokens'' =
     JObj [(''accessToken'', JStr ''a'')]"
  by (simp_all add: bad_transfer_def)

lemma demo_response_fields:
  "origin demo_response = ''http://localhost:3002''"
  "source demo_response = Some 1"
  "truthy (data demo_response)"
  "get_field (data demo_response) ''type'' = JStr ''HANDSHAKE_RESPONSE''"
  "get_field (data demo_response) ''requestId'' = JStr ''r0''"
  by (simp_all add: demo_response_def)

lemma second_response_fields:
  "origin second_response = ''http://localhost:3002''"
  "source second_response = Some 2"
  "truthy (data second_response)"
  "get_field (data second_response) ''type'' = JStr ''HANDSHAKE_RESPONSE''"
  by (simp_all add: second_response_def demo_response_def)

text \<open>The handler on a handshake response from the configured origin.\<close>

lemma handleMessage_response:
  assumes "origin event = senderOrigin w"
    and "get_field (data event) ''type'' = JStr ''HANDSHAKE_RESPONSE''"
  shows "handleMessage env event w =
      updateStatus ''Connected to Web App A and waiting for tokens...'' ''pending''
       ((debugLog Log ''[WebApp B] Received message: '' [JStr ''HANDSHAKE_RESPONSE''] w)
          \<lparr>handshakeComplete := True, connectionStatus := ''connected'',
            sourceWindow := source event\<rparr>)"
proof -
  have "truthy (data event)"
    using assms(2) get_field_defined_truthy [of "data event" "''type''"] by simp
  then show ?thesis
    using handleMessage_unfold [of event w env] assms by (simp add: dispatch_response)
qed

text \<open>The handler on a validated \<^verbatim>\<open>TOKEN_TRANSFER\<close> with an accepted token bundle.\<close>

lemma handleMessage_transfer_effects:
  assumes "origin event = senderOrigin w"
    and "get_field (data event) ''type'' = JStr ''TOKEN_TRANSFER''"
    and "snd (isMessageValid env (data event) w)"
    and "handshakeComplete w"
    and "tokens = get_field (get_field (data event) ''data'') ''tokens''"
    and "userId = get_field (get_field (data event) ''data'') ''userId''"
    and "issuedAt = get_field (get_field (data event) ''data'') ''issuedAt''"
    and "truthy tokens" and "truthy (get_field tokens ''accessToken'')"
    and "truthy (get_field tokens ''refreshToken'')"
    and "metadata = JObj [(''userId'', userId), (''issuedAt'', issuedAt),
                          (''source'', JStr (senderOrigin w))]"
    and "ack = JObj [(''type'', JStr ''TOKEN_RECEIVED''),
                     (''requestId'', get_field (data event) ''requestId''),
                     (''data'', JObj [(''success'', JBool True),
                                      (''timestamp'', JStr (toISOString env (now env AtAckData)))]),
                     (''metadata'', JObj [(''timestamp'', JStr (toISOString env (now env AtSend))),
                                          (''sender'', JStr (locationOrigin env))])]"
  shows "external (new_effects w (handleMessage env event w)) =
           (case tokenStorage w of None \<Rightarrow> [] | Some st \<Rightarrow> [CallStoreTokens tokens metadata])
           @ [Status ''Tokens received successfully!'' ''success'']
           @ (if tokenStorage w \<noteq> None \<and> tokenInfoContainer w \<noteq> None
                 \<and> userIdDisplay w \<noteq> None \<and> toStringThrows userId
              then [Uncaught]
              else (case sourceWindow w of
                      None \<Rightarrow> []
                    | Some peer \<Rightarrow>
                        PostMessage peer ack (senderOrigin w)
                        # (if postMessageThrows env peer ack (senderOrigin w)
                           then [Status ''Error communicating with Web App A'' ''error'']
                           else []))
                   @ (case tokensReceivedCallback w of
                        Some (Function f) \<Rightarrow>
                          [CallCallback f tokens
                             (JObj [(''userId'', userId), (''issuedAt'', issuedAt)])]
                      | _ \<Rightarrow> []))"
    and "tokenStorage (handleMessage env event w) =
           (case tokenStorage w of
              None \<Rightarrow> None
            | Some st \<Rightarrow> Some (fst (storeTokens env tokens metadata st)))"
    and "handshakeComplete (handleMessage env event w)"
    and "sourceWindow (handleMessage env event w) = sourceWindow w"
    and "connectionStatus (handleMessage env event w) = connectionStatus w"
    and "senderOrigin (handleMessage env event w) = senderOrigin w"
    and "debug (handleMessage env event w) = debug w"
    and "tokensReceivedCallback (handleMessage env event w) = tokensReceivedCallback w"
    and "trace (handleMessage env event w) =
           trace w @ new_effects w (handleMessage env event w)"
proof -
  let ?u = "debugLog Log ''[WebApp B] Received message: '' [JStr ''TOKEN_TRANSFER''] w"
  have e: "handleMessage env event w = dispatch env event ?u"
    using handleMessage_typed [OF assms(1,2), of env] assms(3) by simp
  have u: "handshakeComplete ?u"
    "metadata = JObj [(''userId'', userId), (''issuedAt'', issuedAt),
                          (''source'', JStr (senderOrigin ?u))]"
    using assms(4,11) by simp_all
  note r = dispatch_transfer_effects [OF assms(2) u(1) assms(5,6,7,8,9,10) u(2) assms(12)]
  from r(1) obtain es where es: "trace (dispatch env event ?u) = trace ?u @ es"
    and ex: "external es =
           (case tokenStorage ?u of None \<Rightarrow> [] | Some st \<Rightarrow> [CallStoreTokens tokens metadata])
           @ [Status ''Tokens received successfully!'' ''success'']
           @ (if tokenStorage ?u \<noteq> None \<and> tokenInfoContainer ?u \<noteq> None
                 \<and> userIdDisplay ?u \<noteq> None \<and> toStringThrows userId
              then [Uncaught]
              else (case sourceWindow ?u of
                      None \<Rightarrow> []
                    | Some peer \<Rightarrow>
                        PostMessage peer ack (senderOrigin ?u)
                        # (if postMessageThrows env peer ack (senderOrigin ?u)
                           then [Status ''Error communicating with Web App A'' ''error'']
                           else []))
                   @ (case tokensReceivedCallback ?u of
                        Some (Function f) \<Rightarrow>
                          [CallCallback f tokens
                             (JObj [(''userId'', userId), (''issuedAt'', issuedAt)])]
                      | _ \<Rightarrow> []))"
    by blast
  have ud: "userIdDisplay ?u = userIdDisplay w"
    by (simp add: debugLog_def emit_def)
  have "external (new_effects w (handleMessage env event w)) = external es"
    unfolding e by (simp add: es new_effects_def)
  with ex show "external (new_effects w (handleMessage env event w)) =
           (case tokenStorage w of None \<Rightarrow> [] | Some st \<Rightarrow> [CallStoreTokens tokens metadata])
           @ [Status ''Tokens received successfully!'' ''success'']
           @ (if tokenStorage w \<noteq> None \<and> tokenInfoContainer w \<noteq> None
                 \<and> userIdDisplay w \<noteq> None \<and> toStringThrows userId
              then [Uncaught]
              else (case sourceWindow w of
                      None \<Rightarrow> []
                    | Some peer \<Rightarrow>
                        PostMessage peer ack (senderOrigin w)
                        # (if postMessageThrows env peer ack (senderOrigin w)
                           then [Status ''Error communicating with Web App A'' ''error'']
                           else []))
                   @ (case tokensReceivedCallback w of
                        Some (Function f) \<Rightarrow>
                          [CallCallback f tokens
                             (JObj [(''userId'', userId), (''issuedAt'', issuedAt)])]
                      | _ \<Rightarrow> []))"
    by (simp only: debugLog_fields ud)
  show "tokenStorage (handleMessage env event w) =
           (case tokenStorage w of
              None \<Rightarrow> None
            | Some st \<Rightarrow> Some (fst (storeTokens env tokens metadata st)))"
    unfolding e using r(2) by simp
  show "handshakeComplete (handleMessage env event w)"
    unfolding e by (rule r(3))
  show "sourceWindow (handleMessage env event w) = sourceWindow w"
    unfolding e using r(4) by simp
  show "connectionStatus (handleMessage env event w) = connectionStatus w"
    unfolding e using r(5) by simp
  show "senderOrigin (handleMessage env event w) = senderOrigin w"
    unfolding e using r(6) by simp
  show "debug (handleMessage env event w) = debug w"
    unfolding e using r(7) by simp
  show "tokensReceivedCallback (handleMessage env event w) = tokensReceivedCallback w"
    unfolding e using r(8) by simp
  show "trace (handleMessage env event w) =
           trace w @ new_effects w (handleMessage env event w)"
    unfolding e by (simp add: es new_effects_def)
qed

text \<open>Transfers that carry the token bundle of \<open>demo_transfer\<close>, handled in \<open>demo_env\<close>.\<close>

lemma demo_bundle_effects:
  assumes "origin event = senderOrigin w"
    and "senderOrigin w = ''http://localhost:3002''"
    and "get_field (data event) ''type'' = JStr ''TOKEN_TRANSFER''"
    and "snd (isMessageValid demo_env (data event) w)"
    and "handshakeComplete w"
    and "get_field (get_field (data event) ''data'') ''tokens'' = demo_tokens"
    and "get_field (get_field (data event) ''data'') ''userId'' = JStr ''u1''"
    and "get_field (get_field (data event) ''data'') ''issuedAt'' = JNum 1749091960000"
    and "get_field (data event) ''requestId'' = JStr ''r1''"
  shows "external (new_effects w (handleMessage demo_env event w)) =
           (case tokenStorage w of
              None \<Rightarrow> [] | Some st \<Rightarrow> [CallStoreTokens demo_tokens demo_store_metadata])
           @ [Status ''Tokens received successfully!'' ''success'']
           @ (case sourceWindow w of
                None \<Rightarrow> []
              | Some peer \<Rightarrow> [PostMessage peer demo_ack ''http://localhost:3002''])
           @ (case tokensReceivedCallback w of
                Some (Function f) \<Rightarrow> [CallCallback f demo_tokens demo_observer_metadata]
              | _ \<Rightarrow> [])"
    and "handshakeComplete (handleMessage demo_env event w)"
    and "sourceWindow (handleMessage demo_env event w) = sourceWindow w"
    and "senderOrigin (handleMessage demo_env event w) = senderOrigin w"
    and "tokensReceivedCallback (handleMessage demo_env event w) = tokensReceivedCallback w"
    and "tokenStorage (handleMessage demo_env event w) =
           (case tokenStorage w of
              None \<Rightarrow> None
            | Some st \<Rightarrow>
                Some (st\<lparr>accessToken := JStr ''a'', refreshToken := JStr ''b'',
                       tokenMetadata :=
                         JObj [(''userId'', JStr ''u1''), (''issuedAt'', JNum 1749091960000),
                               (''source'', JStr ''http://localhost:3002''),
                               (''receivedAt'', JStr ''2025-06-05T02:52:47.000Z'')]\<rparr>))"
    and "trace (handleMessage demo_env event w) =
           trace w @ new_effects w (handleMessage demo_env event w)"
proof -
  have t: "truthy demo_tokens" "truthy (get_field demo_tokens ''accessToken'')"
    "truthy (get_field demo_tokens ''refreshToken'')"
    by (simp_all add: demo_tokens_fields)
  have m: "demo_store_metadata =
      JObj [(''userId'', JStr ''u1''), (''issuedAt'', JNum 1749091960000),
            (''source'', JStr (senderOrigin w))]"
    by (simp add: demo_store_metadata_def assms(2))
  have a: "demo_ack = JObj [(''type'', JStr ''TOKEN_RECEIVED''),
                     (''requestId'', get_field (data event) ''requestId''),
                     (''data'', JObj [(''success'', JBool True),
                            (''timestamp'', JStr (toISOString demo_env (now demo_env AtAckData)))]),
                     (''metadata'',
                      JObj [(''timestamp'', JStr (toISOString demo_env (now demo_env AtSend))),
                            (''sender'', JStr (locationOrigin demo_env))])]"
    by (simp add: demo_ack_def assms(9) demo_env_fields)
  note r = handleMessage_transfer_effects [OF assms(1,3,4,5) assms(6) [symmetric]
      assms(7) [symmetric] assms(8) [symmetric] t m a]
  show "external (new_effects w (handleMessage demo_env event w)) =
           (case tokenStorage w of
              None \<Rightarrow> [] | Some st \<Rightarrow> [CallStoreTokens demo_tokens demo_store_metadata])
           @ [Status ''Tokens received successfully!'' ''success'']
           @ (case sourceWindow w of
                None \<Rightarrow> []
              | Some peer \<Rightarrow> [PostMessage peer demo_ack ''http://localhost:3002''])
           @ (case tokensReceivedCallback w of
                Some (Function f) \<Rightarrow> [CallCallback f demo_tokens demo_observer_metadata]
              | _ \<Rightarrow> [])"
    using r(1)
    by (simp add: demo_env_fields assms(2) demo_observer_metadata_def
          cong: option.case_cong callback.case_cong)
  show "handshakeComplete (handleMessage demo_env event w)" by (rule r(3))
  show "sourceWindow (handleMessage demo_env event w) = sourceWindow w" by (rule r(4))
  show "senderOrigin (handleMessage demo_env event w) = senderOrigin w" by (rule r(6))
  show "tokensReceivedCallback (handleMessage demo_env event w) = tokensReceivedCallback w"
    by (rule r(8))
  show "tokenStorage (handleMessage demo_env event w) =
           (case tokenStorage w of
              None \<Rightarrow> None
            | Some st \<Rightarrow>
                Some (st\<lparr>accessToken := JStr ''a'', refreshToken := JStr ''b'',
                       tokenMetadata :=
                         JObj [(''userId'', JStr ''u1''), (''issuedAt'', JNum 1749091960000),
                               (''source'', JStr ''http://localhost:3002''),
                               (''receivedAt'', JStr ''2025-06-05T02:52:47.000Z'')]\<rparr>))"
    using r(2)
    by (simp add: storeTokens_accepts t demo_tokens_fields demo_store_metadata_def
          spread_with_def demo_env_fields cong: option.case_cong)
  show "trace (handleMessage demo_env event w) =
           trace w @ new_effects w (handleMessage demo_env event w)"
    by (rule r(9))
qed

lemma garbled_transfer_fields:
  "origin garbled_transfer = ''http://localhost:3002''"
  "truthy (data garbled_transfer)"
  "get_field (data garbled_transfer) ''type'' = JStr ''TOKEN_TRANSFER''"
  "get_field (data garbled_transfer) ''requestId'' = JStr ''r1''"
  "get_field (get_field (data garbled_transfer) ''metadata'') ''timestamp'' = JStr ''banana''"
  "get_field (get_field (data garbled_transfer) ''metadata'') ''expiresAt'' = JStr ''never''"
  "get_field (get_field (data garbled_transfer) ''data'') ''tokens'' = demo_tokens"
  "get_field (get_field (data garbled_transfer) ''data'') ''userId'' = JStr ''u1''"
  "get_field (get_field (data garbled_transfer) ''data'') ''issuedAt'' = JNum 1749091960000"
  by (simp_all add: garbled_transfer_def demo_transfer_def spread_with_def)

lemma demo_env_unreadable:
  "dateOf demo_env (JStr ''banana'') = None"
  "dateOf demo_env (JStr ''never'') = None"
  by (simp_all add: demo_env_def)

lemma garbled_transfer_valid: "snd (isMessageValid demo_env (data garbled_transfer) w)"
  by (simp add: snd_isMessageValid garbled_transfer_fields demo_env_unreadable)





lemma demo_requestId: "generateId demo_env 32 = ''AHOVcjqx4BIPWdkry5CJQXelsz6DKRYf''"
  by code_simp

lemma generateId_length: "length (generateId env n) = n"
  by (simp add: generateId_def)

lemma generateId_alphabet: "set (generateId env n) \<subseteq> set characters"
proof -
  have "length characters = 62" by (simp add: characters_def)
  then have "characters ! (k mod length characters) \<in> set characters" for k
    by simp
  then show ?thesis by (auto simp add: generateId_def)
qed

lemma posts_append [simp]: "posts (es @ fs) = posts es @ posts fs"
  by (induction es rule: posts.induct) simp_all

lemma timers_append [simp]: "timers (es @ fs) = timers es @ timers fs"
  by (induction es rule: timers.induct) simp_all

lemma targetOrigins_append [simp]: "targetOrigins (es @ fs) = targetOrigins es @ targetOrigins fs"
  by (induction es rule: targetOrigins.induct) simp_all

text \<open>\<^verbatim>\<open>initiateHandshake\<close> with an opener.\<close>

lemma initiateHandshake_posted:
  assumes "opener env = Some op"
  shows "fst (initiateHandshake env w) =
    (let req = JObj [(''type'', JStr ''HANDSHAKE_REQUEST''),
                     (''requestId'', JStr (generateId env 32)),
                     (''data'', JObj [(''timestamp'', JStr (toISOString env (now env AtHandshakeRequest))),
                                      (''receiver'', JStr (locationOrigin env))])];
         w1 = emit (PostMessage op req (senderOrigin w)) w
     in if postMessageThrows env op req (senderOrigin w)
        then updateStatus ''Error establishing connection to Web App A'' ''error''
               (debugLog Error ''[WebApp B] Error initiating handshake:'' [] w1)
        else emit (SetTimeout HandshakeTimeoutTimer 30000)
               (updateStatus ''Handshake initiated with Web App A'' ''pending'' w1))"
  using assms by (simp add: initiateHandshake_def Let_def)

lemma demo_initiated_trace:
  "trace demo_initiated =
     [PostMessage 1 demo_request ''http://localhost:3002'',
      Status ''Handshake initiated with Web App A'' ''pending'',
      SetTimeout HandshakeTimeoutTimer 30000]"
  by (simp add: demo_initiated_def initiateHandshake_posted demo_env_fields Let_def
        demo_requestId demo_request_def demo_session_fields)

lemma init_fields [simp]:
  "senderOrigin (init w) = senderOrigin w"
  "tokenStorage (init w) = tokenStorage w"
  "tokensReceivedCallback (init w) = tokensReceivedCallback w"
  "debug (init w) = debug w"
  "handshakeComplete (init w) = handshakeComplete w"
  "sourceWindow (init w) = sourceWindow w"
  "listening (init w) = True"
  "trace (init w) =
     trace w @ (if debug w
                then [Console Log ''[WebApp B] Secure communication manager initialized'' []]
                else []) @ [SetTimeout InitiateHandshakeTimer 1000]"
  by (simp_all add: init_def)

lemma disconnect_fields [simp]:
  "senderOrigin (disconnect w) = senderOrigin w"
  "debug (disconnect w) = debug w"
  "handshakeComplete (disconnect w) = False"
  "sourceWindow (disconnect w) = None"
  "connectionStatus (disconnect w) = ''disconnected''"
  "listening (disconnect w) = False"
  "statusContainer (disconnect w) = statusContainer w"
  "statusMessage (disconnect w) = statusMessage w"
  "trace (disconnect w) =
     trace w @ (if debug w
                then [Console Log ''[WebApp B] Communication manager disconnected'' []]
                else [])"
  by (simp_all add: disconnect_def)

lemma demo_completed_fields:
  "senderOrigin demo_completed = ''http://localhost:3002''"
  "debug demo_completed = False"
  "handshakeComplete demo_completed = True"
  "sourceWindow demo_completed = Some 1"
  "timers (trace demo_completed) =
     [(InitiateHandshakeTimer, 1000), (HandshakeTimeoutTimer, 30000)]"
  "listening demo_completed = True"
  "tokenStorage demo_completed = Some (newTokenStorage False)"
  "tokensReceivedCallback demo_completed = None"
  "targetOrigins (trace demo_completed) = [''http://localhost:3002'']"
proof -
  let ?w1 = "init demo_session"
  let ?w2 = "fst (initiateHandshake demo_env ?w1)"
  have f2: "senderOrigin ?w2 = ''http://localhost:3002''" "debug ?w2 = False"
    "listening ?w2 = True" "tokenStorage ?w2 = Some (newTokenStorage False)"
    "tokensReceivedCallback ?w2 = None"
    "trace ?w2 = [SetTimeout InitiateHandshakeTimer 1000,
       PostMessage 1 demo_request ''http://localhost:3002'',
       Status ''Handshake initiated with Web App A'' ''pending'',
       SetTimeout HandshakeTimeoutTimer 30000]"
    by (simp_all add: initiateHandshake_posted demo_env_fields Let_def demo_requestId
          demo_request_def demo_session_fields)
  have o: "origin demo_response = senderOrigin ?w2"
    by (simp add: demo_response_fields f2)
  have c: "demo_completed = handleMessage demo_env demo_response ?w2"
    by (simp add: demo_completed_def f2)
  note e = handleMessage_response [OF o demo_response_fields(4), of demo_env]
  show "senderOrigin demo_completed = ''http://localhost:3002''"
    "debug demo_completed = False"
    "handshakeComplete demo_completed = True"
    "sourceWindow demo_completed = Some 1"
    "timers (trace demo_completed) =
       [(InitiateHandshakeTimer, 1000), (HandshakeTimeoutTimer, 30000)]"
    "listening demo_completed = True"
    "tokenStorage demo_completed = Some (newTokenStorage False)"
    "tokensReceivedCallback demo_completed = None"
    "targetOrigins (trace demo_completed) = [''http://localhost:3002'']"
    unfolding c e by (simp_all add: f2 demo_response_fields)
qed

lemma demo_torn_down_fields:
  "handshakeComplete demo_torn_down = False"
  "debug demo_torn_down = False"
  "connectionStatus demo_torn_down = ''disconnected''"
  by (simp_all add: demo_torn_down_def demo_completed_fields)

text \<open>No operation of the program posts to another target than the configured origin.\<close>

lemma targetOrigins_storeTokens [simp]:
  "targetOrigins (snd (snd (storeTokens env tokens metadata st))) = []"
  by (simp add: storeTokens_def)

lemma targets_only_basic [simp]:
  "targets_only so (emit (PostMessage t m x) w) = (targets_only so w \<and> x = so)"
  "targets_only so (emit (Status a b) w) = targets_only so w"
  "targets_only so (emit (Console l s vs) w) = targets_only so w"
  "targets_only so (emit (CallStoreTokens c d) w) = targets_only so w"
  "targets_only so (emit (CallCallback f c d) w) = targets_only so w"
  "targets_only so (emit (SetTimeout tm n) w) = targets_only so w"
  "targets_only so (emit Uncaught w) = targets_only so w"
  "targets_only so (emits (snd (snd (storeTokens env tokens metadata st))) w) =
     targets_only so w"
  "targets_only so (debugLog l s vs w) = targets_only so w"
  "targets_only so (updateStatus a b w) = targets_only so w"
  "targets_only so (fst (updateTokenInfo env w)) = targets_only so w"
  by (auto simp add: targets_only_def)

lemma targets_only_updates [simp]:
  "targets_only so (w\<lparr>handshakeComplete := h\<rparr>) = targets_only so w"
  "targets_only so (w\<lparr>connectionStatus := c\<rparr>) = targets_only so w"
  "targets_only so (w\<lparr>sourceWindow := s\<rparr>) = targets_only so w"
  "targets_only so (w\<lparr>tokenStorage := ts\<rparr>) = targets_only so w"
  "targets_only so (w\<lparr>tokensReceivedCallback := cb\<rparr>) = targets_only so w"
  "targets_only so (w\<lparr>listening := b\<rparr>) = targets_only so w"
  by (simp_all add: targets_only_def)

lemma targets_only_sendMessage [simp]:
  "targets_only so (fst (sendMessage env m w)) = targets_only so w"
  by (auto simp add: sendMessage_def Let_def targets_only_def split: option.split)

lemma targets_only_isMessageValid [simp]:
  "targets_only so (fst (isMessageValid env m w)) = targets_only so w"
  by (simp add: isMessageValid_def Let_def)

lemma targets_only_dispatch [simp]:
  "targets_only so (dispatch env event w) = targets_only so w"
  by (simp add: dispatch_def Let_def split: option.split callback.split)

lemma targets_only_handleMessage [simp]:
  "targets_only so (handleMessage env event w) = targets_only so w"
  by (simp add: handleMessage_def Let_def)

lemma targets_only_initiateHandshake [simp]:
  "targets_only so (fst (initiateHandshake env w)) = targets_only so w"
  by (auto simp add: initiateHandshake_def Let_def targets_only_def split: option.split)

lemma targets_only_step [simp]: "targets_only so (step env a w) = targets_only so w"
  by (cases a)
     (simp_all add: init_def disconnect_def onTokensReceived_def setTokenStorage_def
        handshakeTimeout_def)

lemma targets_only_run: "targets_only so (run steps w) = targets_only so w"
  by (induction steps arbitrary: w) simp_all

lemma targets_only_construct:
  "targets_only so (construct opts pg) =
     (so = (case opt_senderOrigin opts of Some x \<Rightarrow> x | None \<Rightarrow> ''http://localhost:3002''))"
  by (auto simp add: targets_only_def construct_def)

section \<open>Origin check\<close>

text \<open>
  C1. A message event whose origin differs from the configured sender origin changes no
  field of the session or of the page, and causes no \<^verbatim>\<open>postMessage\<close>, status
  notification, store call, callback or timer, whatever its payload: the handler returns
  at once. Its only trace is the console warning printed when \<open>debug\<close> is set.
\<close>

theorem origin_mismatch_is_ignored:
  assumes "origin event \<noteq> senderOrigin w"
  shows "handleMessage env event w =
           w\<lparr>trace := trace w @
              (if debug w
               then [Console Warn ''[WebApp B] Rejected message from unauthorized origin: ''
                       [JStr (origin event)]]
               else [])\<rparr>
         \<and> external (new_effects w (handleMessage env event w)) = []"
  using assms
  by (simp add: handleMessage_def debugLog_def emit_def external_def new_effects_def)

theorem origin_mismatch_is_ignored_witness:
  "origin forged_transfer \<noteq> senderOrigin demo_connected
   \<and> handleMessage demo_env forged_transfer demo_connected = demo_connected
   \<and> external (new_effects demo_connected
        (handleMessage demo_env forged_transfer demo_connected)) = []"
proof -
  have h: "origin forged_transfer \<noteq> senderOrigin demo_connected"
    by (simp add: forged_transfer_def demo_connected_fields)
  note r = origin_mismatch_is_ignored [OF h, of demo_env]
  from r have "handleMessage demo_env forged_transfer demo_connected = demo_connected"
    by (simp add: demo_connected_fields(2))
  with r h show ?thesis by simp
qed

section \<open>Invalid token payloads\<close>

text \<open>
  C9. A validated \<^verbatim>\<open>TOKEN_TRANSFER\<close> from the configured origin, handled while the
  handshake is complete, whose data has no \<^verbatim>\<open>tokens\<close>, or tokens without
  \<^verbatim>\<open>accessToken\<close> or without \<^verbatim>\<open>refreshToken\<close>, is reported by the status
  notification \<^verbatim>\<open>Error: Received invalid token data\<close> of kind \<^verbatim>\<open>error\<close> and has
  no other effect besides console lines: no store call, no \<^verbatim>\<open>postMessage\<close>, no
  callback. No field changes but the status display and the trace, so the token store,
  the peer window and the connection state are as before and the handshake stays
  complete.
\<close>

theorem invalid_token_payload:
  assumes "origin event = senderOrigin w"
    and "get_field (data event) ''type'' = JStr ''TOKEN_TRANSFER''"
    and "snd (isMessageValid env (data event) w)"
    and "handshakeComplete w"
    and "tokens = get_field (get_field (data event) ''data'') ''tokens''"
    and "\<not> truthy tokens \<or> \<not> truthy (get_field tokens ''accessToken'')
         \<or> \<not> truthy (get_field tokens ''refreshToken'')"
  shows "external (new_effects w (handleMessage env event w)) =
           [Status ''Error: Received invalid token data'' ''error'']
         \<and> handleMessage env event w =
             w\<lparr>statusContainer := statusContainer (handleMessage env event w),
               statusMessage := statusMessage (handleMessage env event w),
               trace := trace (handleMessage env event w)\<rparr>
         \<and> handshakeComplete (handleMessage env event w)"
proof -
  let ?u = "debugLog Log ''[WebApp B] Received message: '' [get_field (data event) ''type''] w"
  let ?w' = "handleMessage env event w"
  have t: "truthy (data event)" "truthy (get_field (data event) ''type'')"
    using assms(2) get_field_defined_truthy [of "data event" "''type''"] by simp_all
  have "?w' = dispatch env event ?u"
    using handleMessage_typed [OF assms(1,2), of env] assms(2,3) by simp
  also have "\<dots> = updateStatus ''Error: Received invalid token data'' ''error'' ?u"
    using assms(2,4,5,6) by (auto simp add: dispatch_def Let_def get_field_or_empty)
  finally have e: "?w' = updateStatus ''Error: Received invalid token data'' ''error'' ?u" .
  have 1: "external (new_effects w ?w') = [Status ''Error: Received invalid token data'' ''error'']"
    unfolding e by (simp add: new_effects_def)
  have 2: "?w' = w\<lparr>statusContainer := statusContainer ?w', statusMessage := statusMessage ?w',
               trace := trace ?w'\<rparr>"
    unfolding e by (subst updateStatus_frame, subst debugLog_frame) simp
  have 3: "handshakeComplete ?w'"
    unfolding e using assms(4) by simp
  from 1 2 3 show ?thesis by blast
qed

theorem invalid_token_payload_witness:
  "origin bad_transfer = senderOrigin demo_observed
   \<and> get_field (data bad_transfer) ''type'' = JStr ''TOKEN_TRANSFER''
   \<and> snd (isMessageValid demo_env (data bad_transfer) demo_observed)
   \<and> handshakeComplete demo_observed
   \<and> \<not> truthy (get_field (get_field (get_field (data bad_transfer) ''data'') ''tokens'')
          ''refreshToken'')
   \<and> external (new_effects demo_observed (handleMessage demo_env bad_transfer demo_observed)) =
       [Status ''Error: Received invalid token data'' ''error'']
   \<and> handshakeComplete (handleMessage demo_env bad_transfer demo_observed)
   \<and> tokenStorage (handleMessage demo_env bad_transfer demo_observed) =
       Some (newTokenStorage False)
   \<and> tokensReceivedCallback (handleMessage demo_env bad_transfer demo_observed) =
       Some (Function 7)"
proof -
  let ?w' = "handleMessage demo_env bad_transfer demo_observed"
  have v: "snd (isMessageValid demo_env (data bad_transfer) demo_observed)"
    by (simp add: snd_isMessageValid bad_transfer_fields demo_metadata_fields demo_env_fields)
  have h: "origin bad_transfer = senderOrigin demo_observed"
    "get_field (data bad_transfer) ''type'' = JStr ''TOKEN_TRANSFER''"
    "handshakeComplete demo_observed"
    by (simp_all add: bad_transfer_fields demo_observed_fields)
  have b: "\<not> truthy (JObj [(''accessToken'', JStr ''a'')])
     \<or> \<not> truthy (get_field (JObj [(''accessToken'', JStr ''a'')]) ''accessToken'')
     \<or> \<not> truthy (get_field (JObj [(''accessToken'', JStr ''a'')]) ''refreshToken'')"
    by simp
  note r = invalid_token_payload [OF h(1,2) v h(3) bad_transfer_fields(5) [symmetric] b]
  from r have f: "?w' = demo_observed\<lparr>statusContainer := statusContainer ?w',
      statusMessage := statusMessage ?w', trace := trace ?w'\<rparr>"
    by blast
  have s: "tokenStorage ?w' = Some (newTokenStorage False)"
    using arg_cong [where f = tokenStorage, OF f] by (simp add: demo_observed_fields)
  have c: "tokensReceivedCallback ?w' = Some (Function 7)"
    using arg_cong [where f = tokensReceivedCallback, OF f] by (simp add: demo_observed_fields)
  from r h v s c show ?thesis
    by (simp add: bad_transfer_fields)
qed

section \<open>The request id of a handshake response\<close>

text \<open>
  C10. Two handler calls in the same state and environment, on events that differ only
  in the \<^verbatim>\<open>requestId\<close> of a \<^verbatim>\<open>HANDSHAKE_RESPONSE\<close> payload (any value, or none),
  end in the same world: the same session fields and the same trace. The handler
  never reads \<^verbatim>\<open>requestId\<close> of a response, and the session has no field holding the
  id that \<^verbatim>\<open>initiateHandshake\<close> generated.
\<close>

theorem response_acceptance_ignores_requestId:
  assumes "get_field m1 ''type'' = JStr ''HANDSHAKE_RESPONSE''"
    and "\<forall>k. k \<noteq> ''requestId'' \<longrightarrow> get_field m2 k = get_field m1 k"
  shows "handleMessage env (event\<lparr>data := m1\<rparr>) w = handleMessage env (event\<lparr>data := m2\<rparr>) w"
proof (cases "origin event = senderOrigin w")
  case False
  then show ?thesis by (simp add: handleMessage_foreign)
next
  case True
  have t2: "get_field m2 ''type'' = JStr ''HANDSHAKE_RESPONSE''"
    using assms by simp
  have t: "truthy m1" "truthy m2"
    using assms(1) t2 get_field_defined_truthy [of m1 "''type''"]
      get_field_defined_truthy [of m2 "''type''"]
    by simp_all
  have "handleMessage env (event\<lparr>data := m\<rparr>) w =
      updateStatus ''Connected to Web App A and waiting for tokens...'' ''pending''
       ((debugLog Log ''[WebApp B] Received message: '' [JStr ''HANDSHAKE_RESPONSE''] w)
          \<lparr>handshakeComplete := True, connectionStatus := ''connected'',
            sourceWindow := source event\<rparr>)"
    if "truthy m" "get_field m ''type'' = JStr ''HANDSHAKE_RESPONSE''" for m
    using handleMessage_unfold [of "event\<lparr>data := m\<rparr>" w env] True that
    by (simp add: dispatch_response)
  from this [OF t(1) assms(1)] this [OF t(2) t2] show ?thesis by simp
qed

theorem response_acceptance_ignores_requestId_witness:
  "get_field (data demo_response) ''type'' = JStr ''HANDSHAKE_RESPONSE''
   \<and> get_field (data demo_response) ''requestId'' = JStr ''r0''
   \<and> get_field (data anonymous_response) ''requestId'' = JUndefined
   \<and> handleMessage demo_env demo_response demo_initiated =
       handleMessage demo_env anonymous_response demo_initiated
   \<and> handshakeComplete (handleMessage demo_env anonymous_response demo_initiated)"
proof -
  have a: "\<forall>k. k \<noteq> ''requestId'' \<longrightarrow>
      get_field (JObj [(''type'', JStr ''HANDSHAKE_RESPONSE'')]) k = get_field (data demo_response) k"
    by (simp add: demo_response_def)
  have e: "demo_response\<lparr>data := data demo_response\<rparr> = demo_response"
    "demo_response\<lparr>data := JObj [(''type'', JStr ''HANDSHAKE_RESPONSE'')]\<rparr> = anonymous_response"
    by (simp_all add: anonymous_response_def)
  have u: "get_field (data anonymous_response) ''requestId'' = JUndefined"
    by (simp add: anonymous_response_def)
  note r = response_acceptance_ignores_requestId [OF demo_response_fields(4) a,
      of demo_env demo_response demo_initiated]
  have c: "handshakeComplete (handleMessage demo_env demo_response demo_initiated)"
    using handleMessage_unfold [of demo_response demo_initiated demo_env]
    by (simp add: demo_response_fields demo_initiated_fields dispatch_response)
  from r c u show ?thesis
    by (simp add: e demo_response_fields)
qed

section \<open>Handshake responses\<close>

text \<open>
  C3 (as amended). A \<^verbatim>\<open>HANDSHAKE_RESPONSE\<close> from the configured origin makes the
  session connected and records the window the event came from as the peer, in
  whatever state it arrives: the \<^verbatim>\<open>HANDSHAKE_RESPONSE\<close> branch tests no state.
  Each such response sets \<open>handshakeComplete\<close> and \<open>connectionStatus\<close>, overwrites
  \<open>sourceWindow\<close> with the event's source, and issues the status notification
  \<^verbatim>\<open>Connected to Web App A and waiting for tokens...\<close>; nothing else changes.
\<close>

theorem handshake_response_connects:
  assumes "origin event = senderOrigin w"
    and "get_field (data event) ''type'' = JStr ''HANDSHAKE_RESPONSE''"
  shows "handshakeComplete (handleMessage env event w)
         \<and> connectionStatus (handleMessage env event w) = ''connected''
         \<and> sourceWindow (handleMessage env event w) = source event
         \<and> external (new_effects w (handleMessage env event w)) =
             [Status ''Connected to Web App A and waiting for tokens...'' ''pending'']
         \<and> handleMessage env event w =
             w\<lparr>handshakeComplete := True, connectionStatus := ''connected'',
               sourceWindow := source event,
               statusContainer := statusContainer (handleMessage env event w),
               statusMessage := statusMessage (handleMessage env event w),
               trace := trace (handleMessage env event w)\<rparr>"
proof -
  note e = handleMessage_response [OF assms, of env]
  let ?w' = "handleMessage env event w"
  have 1: "handshakeComplete ?w'" "connectionStatus ?w' = ''connected''"
    "sourceWindow ?w' = source event"
    unfolding e by simp_all
  have 2: "external (new_effects w ?w') =
             [Status ''Connected to Web App A and waiting for tokens...'' ''pending'']"
    unfolding e by (simp add: new_effects_def)
  have 3: "?w' = w\<lparr>handshakeComplete := True, connectionStatus := ''connected'',
               sourceWindow := source event,
               statusContainer := statusContainer ?w',
               statusMessage := statusMessage ?w',
               trace := trace ?w'\<rparr>"
    unfolding e by (subst updateStatus_frame, subst debugLog_frame) simp
  from 1 2 3 show ?thesis by blast
qed

theorem handshake_response_connects_witness:
  "origin demo_response = senderOrigin demo_initiated
   \<and> get_field (data demo_response) ''type'' = JStr ''HANDSHAKE_RESPONSE''
   \<and> \<not> handshakeComplete demo_initiated
   \<and> handshakeComplete (handleMessage demo_env demo_response demo_initiated)
   \<and> connectionStatus (handleMessage demo_env demo_response demo_initiated) = ''connected''
   \<and> sourceWindow (handleMessage demo_env demo_response demo_initiated) = Some 1
   \<and> external (new_effects demo_initiated
        (handleMessage demo_env demo_response demo_initiated)) =
       [Status ''Connected to Web App A and waiting for tokens...'' ''pending'']"
proof -
  have h: "origin demo_response = senderOrigin demo_initiated"
    "get_field (data demo_response) ''type'' = JStr ''HANDSHAKE_RESPONSE''"
    by (simp_all add: demo_response_fields demo_initiated_fields)
  from handshake_response_connects [OF h, of demo_env] h show ?thesis
    by (simp add: demo_response_fields demo_initiated_fields)
qed

text \<open>
  C3 as stated fails twice. A response handled by a freshly constructed session, on
  which no handshake was initiated, is not ignored: the session becomes connected.
  A second response handled while connected is not ignored either: it re-issues the
  status notification and replaces the recorded peer window by its own source.
\<close>

theorem response_outside_handshake_counterexample:
  "\<not> handshakeComplete demo_session
   \<and> connectionStatus demo_session = ''disconnected''
   \<and> trace demo_session = []
   \<and> handshakeComplete (handleMessage demo_env demo_response demo_session)
   \<and> connectionStatus (handleMessage demo_env demo_response demo_session) = ''connected''
   \<and> sourceWindow (handleMessage demo_env demo_response demo_session) = Some 1
   \<and> handshakeComplete demo_connected
   \<and> sourceWindow demo_connected = Some 1
   \<and> sourceWindow (handleMessage demo_env second_response demo_connected) = Some 2
   \<and> new_effects demo_connected (handleMessage demo_env second_response demo_connected) =
       [Status ''Connected to Web App A and waiting for tokens...'' ''pending'']"
proof -
  have 1: "handshakeComplete (handleMessage demo_env demo_response demo_session)
     \<and> connectionStatus (handleMessage demo_env demo_response demo_session) = ''connected''
     \<and> sourceWindow (handleMessage demo_env demo_response demo_session) = Some 1"
    by (simp add: handleMessage_response demo_response_fields demo_session_fields)
  have 2: "sourceWindow (handleMessage demo_env second_response demo_connected) = Some 2
     \<and> new_effects demo_connected (handleMessage demo_env second_response demo_connected) =
       [Status ''Connected to Web App A and waiting for tokens...'' ''pending'']"
    by (simp add: handleMessage_response second_response_fields demo_connected_fields
          new_effects_def)
  from 1 2 show ?thesis
    by (simp add: demo_session_fields demo_connected_fields)
qed

section \<open>Transfers need a completed handshake\<close>

text \<open>
  C2 (as amended). The session's only memory of the handshake is the flag
  \<open>handshakeComplete\<close>, set by a handshake response and cleared by \<^verbatim>\<open>disconnect\<close>;
  the code keeps no TokensReceived state. In every state of the session (so in every
  reachable one), a handler call made while the flag is false leaves the token store
  untouched and has no effect other than console lines, one of two status
  notifications, or the TypeError of printing a type that does not convert; if the
  envelope is a \<^verbatim>\<open>TOKEN_TRANSFER\<close> the call changes nothing but the status display and
  the trace, reports at most the security error, and leaves the flag false. Conversely
  a call of the store's \<^verbatim>\<open>storeTokens\<close> among the effects of a handler call means the
  flag was set when the call began. So a transfer arriving while Disconnected or
  HandshakeInitiated never reaches the store, and one arriving after the handshake is
  processed, whether or not a transfer was processed before.
\<close>

theorem token_transfer_needs_handshake:
  "(\<not> handshakeComplete w \<longrightarrow>
      tokenStorage (handleMessage env event w) = tokenStorage w
      \<and> set (external (new_effects w (handleMessage env event w))) \<subseteq>
          {Status ''Security error: Received tokens before handshake completion'' ''error'',
           Status ''Connected to Web App A and waiting for tokens...'' ''pending'',
           Uncaught}
      \<and> (get_field (data event) ''type'' = JStr ''TOKEN_TRANSFER'' \<longrightarrow>
            \<not> handshakeComplete (handleMessage env event w)
            \<and> handleMessage env event w =
                w\<lparr>statusContainer := statusContainer (handleMessage env event w),
                  statusMessage := statusMessage (handleMessage env event w),
                  trace := trace (handleMessage env event w)\<rparr>
            \<and> set (external (new_effects w (handleMessage env event w))) \<subseteq>
                {Status ''Security error: Received tokens before handshake completion''
                   ''error''}))
   \<and> (CallStoreTokens t m \<in> set (new_effects w (handleMessage env event w)) \<longrightarrow>
        handshakeComplete w)"
proof -
  let ?w' = "handleMessage env event w"
  let ?sec = "Status ''Security error: Received tokens before handshake completion'' ''error''"
  let ?con = "Status ''Connected to Web App A and waiting for tokens...'' ''pending''"
  have main: "tokenStorage ?w' = tokenStorage w
      \<and> set (external (new_effects w ?w')) \<subseteq> {?sec, ?con, Uncaught}
      \<and> (get_field (data event) ''type'' = JStr ''TOKEN_TRANSFER'' \<longrightarrow>
            \<not> handshakeComplete ?w'
            \<and> ?w' = w\<lparr>statusContainer := statusContainer ?w',
                       statusMessage := statusMessage ?w', trace := trace ?w'\<rparr>
            \<and> set (external (new_effects w ?w')) \<subseteq> {?sec})"
    if n: "\<not> handshakeComplete w"
    using n
  proof (cases rule: handleMessage_unconnected_cases [where env = env and event = event])
    case ignored
    have "tokenStorage ?w' = tokenStorage w" "handshakeComplete ?w' = handshakeComplete w"
      by (subst ignored(1), simp)+
    moreover have "?w' = w\<lparr>statusContainer := statusContainer ?w',
                       statusMessage := statusMessage ?w', trace := trace ?w'\<rparr>"
      by (subst (1 2 3) ignored(1)) simp
    ultimately show ?thesis using n ignored(2) by simp
  next
    case thrown
    show ?thesis
      unfolding thrown(3) using thrown(2)
      by (simp add: new_effects_def)
  next
    case response
    show ?thesis
      unfolding response(2) using response(1)
      by (simp add: new_effects_def)
  next
    case transfer
    have f: "?w' = w\<lparr>statusContainer := statusContainer ?w',
                       statusMessage := statusMessage ?w', trace := trace ?w'\<rparr>"
      unfolding transfer(2) by (subst updateStatus_frame, subst debugLog_frame) simp
    have "tokenStorage ?w' = tokenStorage w" "\<not> handshakeComplete ?w'"
      "set (external (new_effects w ?w')) \<subseteq> {?sec}"
      unfolding transfer(2) using n by (simp_all add: new_effects_def)
    with f show ?thesis by auto
  qed
  have "handshakeComplete w" if c: "CallStoreTokens t m \<in> set (new_effects w ?w')"
  proof (rule ccontr)
    assume "\<not> handshakeComplete w"
    from main [OF this] have s: "set (external (new_effects w ?w')) \<subseteq> {?sec, ?con, Uncaught}"
      by simp
    from c have "CallStoreTokens t m \<in> set (external (new_effects w ?w'))"
      by (simp add: external_def)
    with s show False by auto
  qed
  with main show ?thesis by blast
qed

theorem token_transfer_needs_handshake_witness:
  "\<not> handshakeComplete demo_session
   \<and> get_field (data demo_transfer) ''type'' = JStr ''TOKEN_TRANSFER''
   \<and> tokenStorage (handleMessage demo_env demo_transfer demo_session) =
       Some (newTokenStorage False)
   \<and> \<not> handshakeComplete (handleMessage demo_env demo_transfer demo_session)
   \<and> external (new_effects demo_session (handleMessage demo_env demo_transfer demo_session)) =
       [Status ''Security error: Received tokens before handshake completion'' ''error'']
   \<and> \<not> handshakeComplete demo_initiated
   \<and> tokenStorage (handleMessage demo_env demo_transfer demo_initiated) =
       Some (newTokenStorage False)
   \<and> \<not> handshakeComplete (handleMessage demo_env demo_transfer demo_initiated)"
proof -
  have 1: "\<not> handshakeComplete demo_session" "\<not> handshakeComplete demo_initiated"
    by (simp_all add: demo_session_fields demo_initiated_fields)
  have t: "get_field (data demo_transfer) ''type'' = JStr ''TOKEN_TRANSFER''"
    by (simp add: demo_transfer_fields)
  note a = token_transfer_needs_handshake [of demo_session demo_env demo_transfer]
  note b = token_transfer_needs_handshake [of demo_initiated demo_env demo_transfer]
  have 2: "tokenStorage (handleMessage demo_env demo_transfer demo_session) =
             Some (newTokenStorage False)"
     "\<not> handshakeComplete (handleMessage demo_env demo_transfer demo_session)"
    using a 1 t by (simp_all add: demo_session_fields)
  have 3: "tokenStorage (handleMessage demo_env demo_transfer demo_initiated) =
             Some (newTokenStorage False)"
     "\<not> handshakeComplete (handleMessage demo_env demo_transfer demo_initiated)"
    using b 1 t by (simp_all add: demo_initiated_fields)
  have h: "origin demo_transfer = senderOrigin demo_session" "truthy (data demo_transfer)"
    "truthy (get_field (data demo_transfer) ''type'')"
    by (simp_all add: demo_transfer_fields demo_session_fields)
  have d: "debugLog l s vs demo_session = demo_session" for l s vs
    by (simp add: debugLog_def demo_session_fields)
  have 4: "external (new_effects demo_session
             (handleMessage demo_env demo_transfer demo_session)) =
       [Status ''Security error: Received tokens before handshake completion'' ''error'']"
    using handleMessage_unfold [OF h, of demo_env] demo_transfer_valid [of demo_session] 1
    by (simp add: d dispatch_unconnected_transfer t new_effects_def demo_session_fields
          demo_transfer_fields)
  from 1 2 3 4 t show ?thesis by simp
qed

text \<open>
  C2 as stated fails in the state after a transfer: the session that has stored,
  acknowledged and observed one transfer (TokensReceived in the specification) handles
  the next \<^verbatim>\<open>TOKEN_TRANSFER\<close> in the same way, store operation included.
\<close>

theorem second_transfer_counterexample:
  "external (new_effects demo_observed demo_received) =
       [CallStoreTokens demo_tokens demo_store_metadata,
        Status ''Tokens received successfully!'' ''success'',
        PostMessage 1 demo_ack ''http://localhost:3002'',
        CallCallback 7 demo_tokens demo_observer_metadata]
   \<and> get_field (data demo_transfer) ''type'' = JStr ''TOKEN_TRANSFER''
   \<and> external (new_effects demo_received
        (handleMessage demo_env demo_transfer demo_received)) =
       [CallStoreTokens demo_tokens demo_store_metadata,
        Status ''Tokens received successfully!'' ''success'',
        PostMessage 1 demo_ack ''http://localhost:3002'',
        CallCallback 7 demo_tokens demo_observer_metadata]"
proof -
  have a: "origin demo_transfer = senderOrigin demo_observed"
    "senderOrigin demo_observed = ''http://localhost:3002''"
    "handshakeComplete demo_observed"
    by (simp_all add: demo_transfer_fields demo_observed_fields)
  note ra = demo_bundle_effects [OF a(1,2) demo_transfer_fields(3)
      demo_transfer_valid [of demo_observed] a(3) demo_transfer_fields(6,7,8,4)]
  have 1: "external (new_effects demo_observed demo_received) =
       [CallStoreTokens demo_tokens demo_store_metadata,
        Status ''Tokens received successfully!'' ''success'',
        PostMessage 1 demo_ack ''http://localhost:3002'',
        CallCallback 7 demo_tokens demo_observer_metadata]"
    unfolding demo_received_def using ra(1) by (simp add: demo_observed_fields)
  have f: "senderOrigin demo_received = ''http://localhost:3002''"
    "handshakeComplete demo_received" "sourceWindow demo_received = Some 1"
    "tokensReceivedCallback demo_received = Some (Function 7)"
    "\<exists>st. tokenStorage demo_received = Some st"
    unfolding demo_received_def using ra(2-6) by (simp_all add: demo_observed_fields)
  from f(5) obtain st where st: "tokenStorage demo_received = Some st" by blast
  have b: "origin demo_transfer = senderOrigin demo_received"
    by (simp add: demo_transfer_fields f)
  note rb = demo_bundle_effects(1) [OF b f(1) demo_transfer_fields(3)
      demo_transfer_valid [of demo_received] f(2) demo_transfer_fields(6,7,8,4)]
  have 2: "external (new_effects demo_received
        (handleMessage demo_env demo_transfer demo_received)) =
       [CallStoreTokens demo_tokens demo_store_metadata,
        Status ''Tokens received successfully!'' ''success'',
        PostMessage 1 demo_ack ''http://localhost:3002'',
        CallCallback 7 demo_tokens demo_observer_metadata]"
    using rb by (simp add: f st)
  from 1 2 show ?thesis by (simp add: demo_transfer_fields)
qed

section \<open>Freshness\<close>

text \<open>
  C4. The claim is that an envelope of a type other than \<^verbatim>\<open>HANDSHAKE_RESPONSE\<close> is
  dispatched only if now is not past \<^verbatim>\<open>metadata.expiresAt\<close> and
  \<^verbatim>\<open>metadata.timestamp\<close> is at most 60 seconds ahead and at most 120 seconds old.
  The code misses it: in the same environment and state where it rejects a transfer
  whose timestamp is 167 seconds old, it accepts the same transfer with the timestamp
  \<^verbatim>\<open>banana\<close> and the expiry \<^verbatim>\<open>never\<close>, which the \<^verbatim>\<open>Date\<close> constructor reads as
  invalid dates: the three comparisons of lines 262, 270 and 278 are then comparisons
  with NaN, all false, and the transfer is stored, acknowledged and observed.
\<close>

theorem unreadable_dates_are_dispatched:
  "origin garbled_transfer = senderOrigin demo_observed
   \<and> handshakeComplete demo_observed
   \<and> get_field (data garbled_transfer) ''type'' = JStr ''TOKEN_TRANSFER''
   \<and> get_field (get_field (data garbled_transfer) ''metadata'') ''timestamp'' = JStr ''banana''
   \<and> get_field (get_field (data garbled_transfer) ''metadata'') ''expiresAt'' = JStr ''never''
   \<and> dateOf demo_env (JStr ''banana'') = None
   \<and> dateOf demo_env (JStr ''never'') = None
   \<and> snd (isMessageValid demo_env (data garbled_transfer) demo_observed)
   \<and> external (new_effects demo_observed
        (handleMessage demo_env garbled_transfer demo_observed)) =
       [CallStoreTokens demo_tokens demo_store_metadata,
        Status ''Tokens received successfully!'' ''success'',
        PostMessage 1 demo_ack ''http://localhost:3002'',
        CallCallback 7 demo_tokens demo_observer_metadata]
   \<and> get_field (get_field (data stale_transfer) ''metadata'') ''timestamp'' =
       JNum 1749091800000
   \<and> now demo_env AtValidation - 1749091800000 = 167000
   \<and> \<not> snd (isMessageValid demo_env (data stale_transfer) demo_observed)
   \<and> handleMessage demo_env stale_transfer demo_observed = demo_observed"
proof -
  have h: "origin garbled_transfer = senderOrigin demo_observed"
    "senderOrigin demo_observed = ''http://localhost:3002''"
    "handshakeComplete demo_observed"
    by (simp_all add: garbled_transfer_fields demo_observed_fields)
  note v = garbled_transfer_valid [of demo_observed]
  note r = demo_bundle_effects(1) [OF h(1,2) garbled_transfer_fields(3) v h(3)
      garbled_transfer_fields(7,8,9,4)]
  have 1: "external (new_effects demo_observed
        (handleMessage demo_env garbled_transfer demo_observed)) =
       [CallStoreTokens demo_tokens demo_store_metadata,
        Status ''Tokens received successfully!'' ''success'',
        PostMessage 1 demo_ack ''http://localhost:3002'',
        CallCallback 7 demo_tokens demo_observer_metadata]"
    using r by (simp add: demo_observed_fields)
  have s: "\<not> snd (isMessageValid demo_env (data stale_transfer) demo_observed)"
    by (simp add: snd_isMessageValid stale_transfer_fields demo_env_fields)
  have g: "origin stale_transfer = senderOrigin demo_observed" "truthy (data stale_transfer)"
    "truthy (get_field (data stale_transfer) ''type'')"
    by (simp_all add: stale_transfer_fields demo_observed_fields)
  have 2: "handleMessage demo_env stale_transfer demo_observed = demo_observed"
    using handleMessage_unfold [OF g, of demo_env] s
    by (simp add: stale_transfer_fields isMessageValid_silent demo_observed_fields)
  from h v 1 s 2 show ?thesis
    by (simp add: garbled_transfer_fields demo_env_unreadable stale_transfer_fields
          demo_env_fields)
qed

theorem unreadable_dates_are_dispatched_witness:
  "CallStoreTokens demo_tokens demo_store_metadata
     \<in> set (new_effects demo_observed (handleMessage demo_env garbled_transfer demo_observed))
   \<and> dateOf demo_env (get_field (get_field (data garbled_transfer) ''metadata'') ''timestamp'')
       = None"
proof -
  from unreadable_dates_are_dispatched
  have "CallStoreTokens demo_tokens demo_store_metadata
     \<in> set (external (new_effects demo_observed
           (handleMessage demo_env garbled_transfer demo_observed)))"
    and "dateOf demo_env
           (get_field (get_field (data garbled_transfer) ''metadata'') ''timestamp'') = None"
    by simp_all
  then show ?thesis by (simp add: external_def)
qed

section \<open>Token relay\<close>




section \<open>The handshake timeout\<close>

text \<open>
  C7 (as amended). A call of \<^verbatim>\<open>initiateHandshake\<close> whose \<^verbatim>\<open>postMessage\<close> to the
  opener returns arms exactly one timer, the handshake timeout, at 30000 ms. When
  that timer fires while \<open>handshakeComplete\<close> is false, the only effect besides a
  console line is the status notification \<^verbatim>\<open>Handshake timed out. Please try again.\<close>
  of kind \<^verbatim>\<open>error\<close>, shown by the status display if the page has one; this status is
  all there is of the Error state, for no field of the session changes and the flag
  stays false. When it fires while \<open>handshakeComplete\<close> is true it changes nothing.
  What counts is the flag at the moment the timer fires, not whether a handshake
  completed earlier.
\<close>

theorem handshake_times_out:
  "(opener env = Some op
      \<and> \<not> postMessageThrows env op
            (JObj [(''type'', JStr ''HANDSHAKE_REQUEST''),
                   (''requestId'', JStr (generateId env 32)),
                   (''data'', JObj [(''timestamp'', JStr (toISOString env (now env AtHandshakeRequest))),
                                    (''receiver'', JStr (locationOrigin env))])])
            (senderOrigin w)
    \<longrightarrow> timers (new_effects w (fst (initiateHandshake env w))) =
          [(HandshakeTimeoutTimer, 30000)])
   \<and> (\<not> handshakeComplete w \<longrightarrow>
        external (new_effects w (handshakeTimeout w)) =
          [Status ''Handshake timed out. Please try again.'' ''error'']
        \<and> \<not> handshakeComplete (handshakeTimeout w)
        \<and> handshakeTimeout w =
            w\<lparr>statusContainer := statusContainer (handshakeTimeout w),
              statusMessage := statusMessage (handshakeTimeout w),
              trace := trace (handshakeTimeout w)\<rparr>
        \<and> (statusContainer w \<noteq> None \<and> statusMessage w \<noteq> None \<longrightarrow>
             statusContainer (handshakeTimeout w) = Some ''status error''
             \<and> statusMessage (handshakeTimeout w) =
                 Some ''Handshake timed out. Please try again.''))
   \<and> (handshakeComplete w \<longrightarrow> handshakeTimeout w = w)"
proof (intro conjI impI)
  assume a: "opener env = Some op
      \<and> \<not> postMessageThrows env op
            (JObj [(''type'', JStr ''HANDSHAKE_REQUEST''),
                   (''requestId'', JStr (generateId env 32)),
                   (''data'', JObj [(''timestamp'', JStr (toISOString env (now env AtHandshakeRequest))),
                                    (''receiver'', JStr (locationOrigin env))])])
            (senderOrigin w)"
  then show "timers (new_effects w (fst (initiateHandshake env w))) =
          [(HandshakeTimeoutTimer, 30000)]"
    by (simp add: initiateHandshake_posted Let_def new_effects_def)
next
  assume n: "\<not> handshakeComplete w"
  then have e: "handshakeTimeout w =
      updateStatus ''Handshake timed out. Please try again.'' ''error'' w"
    by (simp add: handshakeTimeout_def)
  show "external (new_effects w (handshakeTimeout w)) =
          [Status ''Handshake timed out. Please try again.'' ''error'']"
    unfolding e by (simp add: new_effects_def)
  show "\<not> handshakeComplete (handshakeTimeout w)"
    unfolding e using n by simp
  show "handshakeTimeout w =
            w\<lparr>statusContainer := statusContainer (handshakeTimeout w),
              statusMessage := statusMessage (handshakeTimeout w),
              trace := trace (handshakeTimeout w)\<rparr>"
    unfolding e by (rule updateStatus_frame)
  show "statusContainer (handshakeTimeout w) = Some ''status error''"
    if "statusContainer w \<noteq> None \<and> statusMessage w \<noteq> None"
    unfolding e using that by (simp add: updateStatus_dom)
  show "statusMessage (handshakeTimeout w) = Some ''Handshake timed out. Please try again.''"
    if "statusContainer w \<noteq> None \<and> statusMessage w \<noteq> None"
    unfolding e using that by (simp add: updateStatus_dom)
next
  assume "handshakeComplete w"
  then show "handshakeTimeout w = w" by (simp add: handshakeTimeout_def)
qed

theorem handshake_times_out_witness:
  "opener demo_env = Some 1
   \<and> timers (new_effects demo_session (fst (initiateHandshake demo_env demo_session))) =
       [(HandshakeTimeoutTimer, 30000)]
   \<and> \<not> handshakeComplete demo_initiated
   \<and> external (new_effects demo_initiated (handshakeTimeout demo_initiated)) =
       [Status ''Handshake timed out. Please try again.'' ''error'']
   \<and> statusContainer (handshakeTimeout demo_initiated) = Some ''status error''
   \<and> \<not> handshakeComplete (handshakeTimeout demo_initiated)
   \<and> handshakeComplete demo_completed
   \<and> handshakeTimeout demo_completed = demo_completed"
proof -
  note a = handshake_times_out [of demo_env 1 demo_session]
  note b = handshake_times_out [of demo_env 1 demo_initiated]
  note c = handshake_times_out [of demo_env 1 demo_completed]
  have 1: "timers (new_effects demo_session (fst (initiateHandshake demo_env demo_session))) =
       [(HandshakeTimeoutTimer, 30000)]"
    using a by (simp add: demo_env_fields)
  have 2: "external (new_effects demo_initiated (handshakeTimeout demo_initiated)) =
       [Status ''Handshake timed out. Please try again.'' ''error'']"
    "statusContainer (handshakeTimeout demo_initiated) = Some ''status error''"
    "\<not> handshakeComplete (handshakeTimeout demo_initiated)"
    using b by (simp_all add: demo_initiated_fields)
  have 3: "handshakeTimeout demo_completed = demo_completed"
    using c by (simp add: demo_completed_fields)
  from 1 2 3 show ?thesis
    by (simp add: demo_env_fields demo_initiated_fields demo_completed_fields)
qed

text \<open>
  C7 as stated fails on a handshake that completed and was torn down: after
  \<^verbatim>\<open>init\<close>, the handshake request, its response and \<^verbatim>\<open>disconnect\<close>, the timer that
  the request armed still fires, finds the flag cleared, and reports a timeout of a
  handshake that had completed.
\<close>

theorem timeout_after_disconnect_counterexample:
  "timers (trace demo_completed) =
     [(InitiateHandshakeTimer, 1000), (HandshakeTimeoutTimer, 30000)]
   \<and> handshakeComplete demo_completed
   \<and> demo_torn_down = disconnect demo_completed
   \<and> external (new_effects demo_torn_down (handshakeTimeout demo_torn_down)) =
       [Status ''Handshake timed out. Please try again.'' ''error'']
   \<and> connectionStatus (handshakeTimeout demo_torn_down) = ''disconnected''"
  by (simp add: demo_completed_fields demo_torn_down_def handshakeTimeout_def
        new_effects_def)

section \<open>The handshake request\<close>

text \<open>
  C8 (as amended). \<^verbatim>\<open>initiateHandshake\<close>, given an opener, makes exactly one
  \<^verbatim>\<open>postMessage\<close> call: to the opener, targeted at the configured origin, of the
  envelope it builds itself. It does not go through \<^verbatim>\<open>_sendMessage\<close>, and the
  envelope has no \<^verbatim>\<open>metadata\<close>; the current time and the page's own origin travel
  in its \<^verbatim>\<open>data\<close>, as \<^verbatim>\<open>timestamp\<close> and \<^verbatim>\<open>receiver\<close>, next to a request id of 32
  characters of the 62-character alphabet.
\<close>

theorem handshake_request_envelope:
  assumes "opener env = Some op"
    and "req = JObj [(''type'', JStr ''HANDSHAKE_REQUEST''),
                     (''requestId'', JStr (generateId env 32)),
                     (''data'', JObj [(''timestamp'', JStr (toISOString env (now env AtHandshakeRequest))),
                                      (''receiver'', JStr (locationOrigin env))])]"
  shows "posts (new_effects w (fst (initiateHandshake env w))) = [(op, req, senderOrigin w)]
         \<and> get_field req ''metadata'' = JUndefined
         \<and> get_field (get_field req ''data'') ''timestamp'' = JStr (toISOString env (now env AtHandshakeRequest))
         \<and> get_field (get_field req ''data'') ''receiver'' = JStr (locationOrigin env)
         \<and> length (generateId env 32) = 32
         \<and> set (generateId env 32) \<subseteq> set characters"
  using assms generateId_alphabet [of env 32]
  by (simp add: initiateHandshake_posted Let_def new_effects_def generateId_length)

theorem handshake_request_envelope_witness:
  "opener demo_env = Some 1
   \<and> posts (new_effects demo_session (fst (initiateHandshake demo_env demo_session))) =
       [(1, demo_request, ''http://localhost:3002'')]
   \<and> get_field (get_field demo_request ''data'') ''timestamp'' =
       JStr ''2025-06-05T02:52:47.000Z''
   \<and> get_field (get_field demo_request ''data'') ''receiver'' = JStr ''http://localhost:3003''"
proof -
  have r: "demo_request = JObj [(''type'', JStr ''HANDSHAKE_REQUEST''),
                     (''requestId'', JStr (generateId demo_env 32)),
                     (''data'',
                      JObj [(''timestamp'', JStr (toISOString demo_env (now demo_env AtHandshakeRequest))),
                            (''receiver'', JStr (locationOrigin demo_env))])]"
    by (simp add: demo_request_def demo_requestId demo_env_fields)
  from handshake_request_envelope [OF demo_env_fields(1) r, of demo_session]
  show ?thesis
    by (simp add: demo_env_fields demo_session_fields)
qed

text \<open>
  C8 as stated fails on the entry point's session: the envelope posted by
  \<^verbatim>\<open>initiateHandshake\<close> has no \<^verbatim>\<open>metadata\<close>, while the same envelope sent through
  \<^verbatim>\<open>_sendMessage\<close> would have carried it.
\<close>

theorem handshake_request_metadata_counterexample:
  "posts (new_effects demo_session (fst (initiateHandshake demo_env demo_session))) =
     [(1, demo_request, ''http://localhost:3002'')]
   \<and> get_field demo_request ''metadata'' = JUndefined
   \<and> posts (new_effects demo_session (fst (sendMessage demo_env demo_request demo_session))) =
     [(1, spread_with demo_request ''metadata''
            (JObj [(''timestamp'', JStr ''2025-06-05T02:52:47.000Z''),
                   (''sender'', JStr ''http://localhost:3003'')]),
       ''http://localhost:3002'')]
   \<and> get_field (spread_with demo_request ''metadata''
            (JObj [(''timestamp'', JStr ''2025-06-05T02:52:47.000Z''),
                   (''sender'', JStr ''http://localhost:3003'')])) ''metadata'' =
       JObj [(''timestamp'', JStr ''2025-06-05T02:52:47.000Z''),
             (''sender'', JStr ''http://localhost:3003'')]"
proof -
  have 1: "posts (new_effects demo_session (fst (initiateHandshake demo_env demo_session))) =
     [(1, demo_request, ''http://localhost:3002'')]"
    using demo_initiated_trace
    by (simp add: demo_initiated_def new_effects_def demo_session_fields)
  have t: "get_field demo_request ''type'' = JStr ''HANDSHAKE_REQUEST''"
    by (simp add: demo_request_def)
  have 2: "posts (new_effects demo_session
             (fst (sendMessage demo_env demo_request demo_session))) =
     [(1, spread_with demo_request ''metadata''
            (JObj [(''timestamp'', JStr ''2025-06-05T02:52:47.000Z''),
                   (''sender'', JStr ''http://localhost:3003'')]),
       ''http://localhost:3002'')]"
    by (simp add: sendMessage_def Let_def t demo_env_fields demo_session_fields
          new_effects_def debugLog_def)
  from 1 2 show ?thesis
    by (simp add: demo_request_def spread_with_def)
qed

section \<open>Target origins\<close>

text \<open>
  C6 (as amended). In every run of the program from a constructed session (any sequence
  of owner calls, delivered message events and timer firings, each in its own
  environment), the configuration keeps the sender origin given at construction (the
  default if none was given), and every \<^verbatim>\<open>postMessage\<close> call made so far passed
  exactly that string as its target origin. Hence no call uses the wildcard unless the
  wildcard itself was given as the sender origin: the constructor takes any string.
\<close>

theorem dispatch_targets_configured_origin:
  "senderOrigin (run steps (construct opts pg)) =
     (case opt_senderOrigin opts of Some x \<Rightarrow> x | None \<Rightarrow> ''http://localhost:3002'')
   \<and> set (targetOrigins (trace (run steps (construct opts pg)))) \<subseteq>
       {case opt_senderOrigin opts of Some x \<Rightarrow> x | None \<Rightarrow> ''http://localhost:3002''}
   \<and> (opt_senderOrigin opts \<noteq> Some ''*'' \<longrightarrow>
        ''*'' \<notin> set (targetOrigins (trace (run steps (construct opts pg)))))"
proof -
  let ?so = "case opt_senderOrigin opts of Some x \<Rightarrow> x | None \<Rightarrow> ''http://localhost:3002''"
  have "targets_only ?so (run steps (construct opts pg))"
    by (simp add: targets_only_run targets_only_construct)
  then have 1: "senderOrigin (run steps (construct opts pg)) = ?so"
    and 2: "set (targetOrigins (trace (run steps (construct opts pg)))) \<subseteq> {?so}"
    by (auto simp add: targets_only_def list_all_iff)
  have "?so \<noteq> ''*''" if "opt_senderOrigin opts \<noteq> Some ''*''"
    using that by (cases "opt_senderOrigin opts") simp_all
  with 2 have 3: "''*'' \<notin> set (targetOrigins (trace (run steps (construct opts pg))))"
    if "opt_senderOrigin opts \<noteq> Some ''*''"
    using that by auto
  from 1 2 3 show ?thesis by blast
qed

lemma run_append: "run (xs @ ys) w = run ys (run xs w)"
  by (induction xs arbitrary: w) simp_all

lemma targetOrigins_external: "targetOrigins (external es) = targetOrigins es"
  by (induction es rule: targetOrigins.induct) simp_all

lemma demo_steps_targets:
  "targetOrigins (trace (run demo_steps demo_session)) =
     [''http://localhost:3002'', ''http://localhost:3002'']"
proof -
  have "run demo_steps demo_session =
      run ([(demo_env, Init), (demo_env, InitiateHandshake), (demo_env, Message demo_response)]
           @ [(demo_env, Message demo_transfer)]) demo_session"
    by (simp add: demo_steps_def)
  also have "\<dots> = step demo_env (Message demo_transfer) demo_completed"
    unfolding run_append demo_completed_def by simp
  finally have r: "run demo_steps demo_session =
      handleMessage demo_env demo_transfer demo_completed"
    by (simp add: demo_completed_fields)
  have a: "origin demo_transfer = senderOrigin demo_completed"
    "senderOrigin demo_completed = ''http://localhost:3002''"
    "handshakeComplete demo_completed"
    by (simp_all add: demo_transfer_fields demo_completed_fields)
  note b = demo_bundle_effects [OF a(1,2) demo_transfer_fields(3)
      demo_transfer_valid [of demo_completed] a(3) demo_transfer_fields(6,7,8,4)]
  have "targetOrigins (new_effects demo_completed
          (handleMessage demo_env demo_transfer demo_completed)) =
        targetOrigins (external (new_effects demo_completed
          (handleMessage demo_env demo_transfer demo_completed)))"
    by (simp add: targetOrigins_external)
  also have "\<dots> = [''http://localhost:3002'']"
    unfolding b(1) by (simp add: demo_completed_fields)
  finally have "targetOrigins (trace (handleMessage demo_env demo_transfer demo_completed)) =
      [''http://localhost:3002'', ''http://localhost:3002'']"
    by (subst b(7)) (simp add: demo_completed_fields)
  then show ?thesis by (simp add: r)
qed

theorem dispatch_targets_configured_origin_witness:
  "senderOrigin (run demo_steps demo_session) = ''http://localhost:3002''
   \<and> targetOrigins (trace (run demo_steps demo_session)) =
       [''http://localhost:3002'', ''http://localhost:3002'']
   \<and> ''*'' \<notin> set (targetOrigins (trace (run demo_steps demo_session)))"
proof -
  have n: "opt_senderOrigin \<lparr>opt_senderOrigin = None, opt_debug = None,
                opt_tokenStorage = Some (newTokenStorage False)\<rparr> \<noteq> Some ''*''"
    by simp
  from dispatch_targets_configured_origin [of demo_steps
      "\<lparr>opt_senderOrigin = None, opt_debug = None,
                opt_tokenStorage = Some (newTokenStorage False)\<rparr>" demo_page] n
  have "senderOrigin (run demo_steps demo_session) = ''http://localhost:3002''"
    and "''*'' \<notin> set (targetOrigins (trace (run demo_steps demo_session)))"
    by (simp_all add: demo_session_def)
  with demo_steps_targets show ?thesis by simp
qed

text \<open>
  C6 as stated fails on a session constructed with the wildcard as sender origin: its
  handshake request is posted with the wildcard as target origin.
\<close>

theorem wildcard_target_counterexample:
  "senderOrigin wildcard_session = ''*''
   \<and> targetOrigins (trace (run [(demo_env, Init), (demo_env, InitiateHandshake)]
        wildcard_session)) = [''*'']"
  by (simp add: wildcard_session_def construct_def demo_page_def init_def debugLog_def
        emit_def initiateHandshake_posted demo_env_fields Let_def updateStatus_def)

end
